theory Spec2Isabelle
  imports Complex_Main "HOL-Library.Log_Nat"
begin

section \<open>Viewport mode observer (the isMobile mixin)\<close>

text \<open>
  The module reads \<open>document.documentElement.clientWidth\<close> (an integer number of CSS
  pixels), writes to the console, keeps one observable object \<open>state\<close> with the single
  field \<open>isMobile\<close>, and registers one listener for the window's resize event.
  The host environment is a record; the module's own state extends it.
\<close>

datatype log_entry = Log_isMobile bool | Log_onResize

record env =
  clientWidth :: int
  console :: "log_entry list"

datatype listener = OnResize

record world = env +
  isMobile :: bool
  resizeListeners :: "listener list"

text \<open>
  \<open>_isMobile\<close>: logs the comparison and returns it. The width is read twice, with
  nothing running in between.
\<close>

definition priv_isMobile :: "'a env_scheme \<Rightarrow> bool \<times> 'a env_scheme" where
  "priv_isMobile e =
     (let e' = e\<lparr>console := console e @ [Log_isMobile (clientWidth e < 768)]\<rparr>
      in (clientWidth e' < 768, e'))"

text \<open>
  Loading the module: \<open>state = Vue.observable({ isMobile: _isMobile() })\<close>, then
  \<open>window.addEventListener('resize', _onResize)\<close>. The module also stores the
  state object in \<open>window.mystate\<close>; nothing in the sources writes through it.
\<close>

definition moduleLoad :: "env \<Rightarrow> world" where
  "moduleLoad e =
     (let (m, e') = priv_isMobile e
      in \<lparr>clientWidth = clientWidth e', console = console e',
          isMobile = m, resizeListeners = [OnResize]\<rparr>)"

text \<open>\<open>_onResize\<close>: logs, then \<open>Vue.set(state, 'isMobile', _isMobile())\<close>.\<close>

definition priv_onResize :: "world \<Rightarrow> world" where
  "priv_onResize w =
     (let w1 = w\<lparr>console := console w @ [Log_onResize]\<rparr>;
          (m, w2) = priv_isMobile w1
      in w2\<lparr>isMobile := m\<rparr>)"

text \<open>The mixin's \<open>data()\<close>: a component-local copy of the flag; nothing is written.\<close>

definition data :: "world \<Rightarrow> bool" where
  "data w = isMobile w"

text \<open>Dispatching the resize event runs every registered listener in order.\<close>

fun runListener :: "listener \<Rightarrow> world \<Rightarrow> world" where
  "runListener OnResize w = priv_onResize w"

definition dispatchResize :: "world \<Rightarrow> world" where
  "dispatchResize w = fold runListener (resizeListeners w) w"

text \<open>
  \<open>resizeWindowWidth\<close> of the test utilities: the document reports the new width, then
  the resize event is dispatched.
\<close>

definition resizeWindowWidth :: "int \<Rightarrow> world \<Rightarrow> world" where
  "resizeWindowWidth width w = dispatchResize (w\<lparr>clientWidth := width\<rparr>)"

text \<open>
  What can happen to a loaded module: the layout changes the width without an event
  having been delivered yet, a resize event is delivered, a component is created and
  calls \<open>data()\<close>.
\<close>

datatype event = WidthChanged int | ResizeEvent | ComponentCreated

fun step :: "world \<Rightarrow> event \<Rightarrow> world" where
  "step w (WidthChanged n) = w\<lparr>clientWidth := n\<rparr>"
| "step w ResizeEvent = dispatchResize w"
| "step w ComponentCreated = (let _ = data w in w)"

definition run :: "world \<Rightarrow> event list \<Rightarrow> world" where
  "run w evs = foldl step w evs"

text \<open>
  Specification side: the width that was measured last, given the width the document
  has now, the width measured before, and the events that follow. Only a delivered
  resize event measures.
\<close>

fun lastMeasured :: "int \<Rightarrow> int \<Rightarrow> event list \<Rightarrow> int" where
  "lastMeasured cur m [] = m"
| "lastMeasured cur m (WidthChanged n # evs) = lastMeasured n m evs"
| "lastMeasured cur m (ResizeEvent # evs) = lastMeasured cur cur evs"
| "lastMeasured cur m (ComponentCreated # evs) = lastMeasured cur m evs"

section \<open>NcDialog: collapsing the navigation\<close>

text \<open>
  \<open>useElementSize(wrapper, { width: 900 })\<close> comes from the vueuse library: the
  \<open>width\<close> ref it returns holds the initial width it was given until the element's
  size has been observed, and the observed content width afterwards. Widths are
  finite JavaScript numbers, which are rationals; comparing them is exact.
\<close>

definition useElementSize_width :: "rat \<Rightarrow> rat option \<Rightarrow> rat" where
  "useElementSize_width initialWidth observed =
     (case observed of None \<Rightarrow> initialWidth | Some x \<Rightarrow> x)"

definition dialogWidth :: "rat option \<Rightarrow> rat" where
  "dialogWidth observed = useElementSize_width 900 observed"

definition isNavigationCollapsed :: "rat option \<Rightarrow> bool" where
  "isNavigationCollapsed observed = (dialogWidth observed < 876)"

section \<open>JavaScript values and numbers\<close>

datatype js_error = TypeError

text \<open>
  The values that reach the colour picker's methods: strings (colours), plain objects
  (the colour object of the advanced picker, as its visible properties), booleans and
  the two empty values. Numbers do not flow into these methods as arguments.
\<close>

datatype js_value = JUndefined | JNull | JBool bool | JStr string
  | JObj "(string \<times> js_value) list"

fun typeof :: "js_value \<Rightarrow> string" where
  "typeof JUndefined = ''undefined''"
| "typeof JNull = ''object''"
| "typeof (JBool b) = ''boolean''"
| "typeof (JStr s) = ''string''"
| "typeof (JObj fs) = ''object''"

text \<open>\<open>String(v)\<close>, the conversion a regular expression applies to its argument.\<close>

fun js_toString :: "js_value \<Rightarrow> string" where
  "js_toString JUndefined = ''undefined''"
| "js_toString JNull = ''null''"
| "js_toString (JBool b) = (if b then ''true'' else ''false'')"
| "js_toString (JStr s) = s"
| "js_toString (JObj fs) = ''[object Object]''"

text \<open>
  Reading the property \<open>hex\<close>: a TypeError on \<open>undefined\<close> and \<open>null\<close>, the
  property's value on an object that has it, \<open>undefined\<close> otherwise (strings and
  booleans have no such property).
\<close>

fun get_hex :: "js_value \<Rightarrow> js_error + js_value" where
  "get_hex JUndefined = Inl TypeError"
| "get_hex JNull = Inl TypeError"
| "get_hex (JBool b) = Inr JUndefined"
| "get_hex (JStr s) = Inr JUndefined"
| "get_hex (JObj fs) = Inr (case map_of fs ''hex'' of None \<Rightarrow> JUndefined | Some v \<Rightarrow> v)"

text \<open>
  A JavaScript number is an IEEE 754 binary64 value. A finite one is the rational it
  denotes. Infinities and the sign of zero are left out: the arithmetic below works
  on channel values up to 255 and never overflows or divides by zero.
\<close>

datatype js_number = NaN | Num rat

definition pow2 :: "int \<Rightarrow> rat" where
  "pow2 e = (if 0 \<le> e then 2 ^ nat e else 1 / 2 ^ nat (- e))"

text \<open>For positive \<open>x\<close>, the exponent \<open>e\<close> with \<open>2 ^ e \<le> x < 2 ^ (e + 1)\<close>.\<close>

definition log2floor :: "rat \<Rightarrow> int" where
  "log2floor x =
     (if 1 \<le> x then bitlen \<lfloor>x\<rfloor> - 1 else - bitlen (\<lceil>1 / x\<rceil> - 1))"

definition roundHalfEven :: "rat \<Rightarrow> int" where
  "roundHalfEven y =
     (let f = \<lfloor>y\<rfloor>; d = y - of_int f
      in if d < 1 / 2 then f
         else if 1 / 2 < d then f + 1
         else if even f then f else f + 1)"

text \<open>
  Rounding an exact result to binary64, to nearest with ties to even: 53 significant
  bits, the spacing fixed at \<open>2 ^ (- 1074)\<close> below \<open>2 ^ (- 1022)\<close>. A result
  from \<open>2 ^ 1024\<close> on would be infinite; none arises from channels up to 255.
\<close>

definition fl :: "rat \<Rightarrow> rat" where
  "fl x =
     (if x = 0 then 0
      else let u = pow2 (max (log2floor \<bar>x\<bar>) (- 1022) - 52)
           in sgn x * of_int (roundHalfEven (\<bar>x\<bar> / u)) * u)"

fun js_mul :: "js_number \<Rightarrow> js_number \<Rightarrow> js_number" where
  "js_mul (Num a) (Num b) = Num (fl (a * b))"
| "js_mul _ _ = NaN"

fun js_add :: "js_number \<Rightarrow> js_number \<Rightarrow> js_number" where
  "js_add (Num a) (Num b) = Num (fl (a + b))"
| "js_add _ _ = NaN"

text \<open>Division by a number other than zero (the code divides by 255).\<close>

fun js_div :: "js_number \<Rightarrow> js_number \<Rightarrow> js_number" where
  "js_div (Num a) (Num b) = (if b = 0 then NaN else Num (fl (a / b)))"
| "js_div _ _ = NaN"

fun js_gt :: "js_number \<Rightarrow> js_number \<Rightarrow> bool" where
  "js_gt (Num a) (Num b) = (b < a)"
| "js_gt _ _ = False"

text \<open>A decimal literal of the source denotes the binary64 value nearest to it.\<close>

definition literal :: "rat \<Rightarrow> js_number" where
  "literal q = Num (fl q)"

section \<open>NcColorPicker\<close>

text \<open>
  The value of a hexadecimal digit, by character code: \<open>0-9\<close>, \<open>a-f\<close>, \<open>A-F\<close>
  (the class \<open>[a-f\d]\<close> under the flag \<open>i\<close>).
\<close>

definition hexDigit :: "char \<Rightarrow> nat option" where
  "hexDigit c =
     (let n = (of_char c :: nat)
      in if 48 \<le> n \<and> n \<le> 57 then Some (n - 48)
         else if 97 \<le> n \<and> n \<le> 102 then Some (n - 87)
         else if 65 \<le> n \<and> n \<le> 70 then Some (n - 55)
         else None)"

definition isHex :: "char \<Rightarrow> bool" where
  "isHex c = (hexDigit c \<noteq> None)"

text \<open>
  \<open>/^#?([a-f\d]{2})([a-f\d]{2})([a-f\d]{2})$/i.exec(s)\<close>: after an optional
  \<open>#\<close> the string must be exactly six hexadecimal digits; the three capture
  groups are its pairs. \<open>None\<close> is the \<open>null\<close> of a failed match.
\<close>

definition rgb_regex_exec :: "string \<Rightarrow> (string \<times> string \<times> string) option" where
  "rgb_regex_exec s =
     (let body = (case s of [] \<Rightarrow> s | c # t \<Rightarrow> if c = CHR ''#'' then t else s)
      in if length body = 6 \<and> list_all isHex body
         then Some (take 2 body, take 2 (drop 2 body), drop 4 body)
         else None)"

text \<open>
  \<open>parseInt(s, 16)\<close> on a string without leading blanks, sign or \<open>0x\<close> prefix
  (the capture groups are two hexadecimal digits): the value of the longest prefix
  of hexadecimal digits, \<open>NaN\<close> when that prefix is empty.
\<close>

definition parseInt16 :: "string \<Rightarrow> js_number" where
  "parseInt16 s =
     (let ds = takeWhile isHex s
      in if ds = [] then NaN
         else Num (of_nat (foldl (\<lambda>a c. 16 * a + (case hexDigit c of None \<Rightarrow> 0 | Some v \<Rightarrow> v)) 0 ds)))"

text \<open>\<open>hexToRGB\<close>: the three channels, or \<open>null\<close> (\<open>None\<close>) when the match fails.\<close>

definition hexToRGB :: "js_value \<Rightarrow> (js_number \<times> js_number \<times> js_number) option" where
  "hexToRGB hex =
     (case rgb_regex_exec (js_toString hex) of
        None \<Rightarrow> None
      | Some (g1, g2, g3) \<Rightarrow> Some (parseInt16 g1, parseInt16 g2, parseInt16 g3))"

text \<open>
  \<open>calculateLuma\<close>: destructuring the result of \<open>hexToRGB\<close> raises a TypeError when
  it is \<open>null\<close>; otherwise the weighted sum is computed left to right and divided.
\<close>

definition calculateLuma :: "js_value \<Rightarrow> js_error + js_number" where
  "calculateLuma color =
     (case hexToRGB color of
        None \<Rightarrow> Inl TypeError
      | Some (red, green, blue) \<Rightarrow>
          Inr (js_div
                 (js_add
                    (js_add (js_mul (literal 0.2126) red) (js_mul (literal 0.7152) green))
                    (js_mul (literal 0.0722) blue))
                 (Num 255)))"

text \<open>The component: its reactive data and the events it has emitted, oldest first.\<close>

record picker =
  currentColor :: js_value
  advanced :: bool
  emitted :: "(string \<times> js_value list) list"

definition emit :: "string \<Rightarrow> js_value list \<Rightarrow> picker \<Rightarrow> picker" where
  "emit name args p = p\<lparr>emitted := emitted p @ [(name, args)]\<rparr>"

definition black :: string where
  "black = ''#000000''"

definition white :: string where
  "white = ''#FFFFFF''"

definition contrastColor :: "picker \<Rightarrow> js_error + string" where
  "contrastColor p =
     (case calculateLuma (currentColor p) of
        Inl e \<Rightarrow> Inl e
      | Inr luma \<Rightarrow> Inr (if js_gt luma (Num 0.5) then black else white))"

definition handleClose :: "picker \<Rightarrow> picker" where
  "handleClose p = emit ''update:open'' [JBool False] (emit ''close'' [] p)"

definition handleConfirm :: "picker \<Rightarrow> picker" where
  "handleConfirm p =
     (let p1 = emit ''submit'' [currentColor p] p;
          p2 = handleClose p1
      in p2\<lparr>advanced := False\<rparr>)"

definition handleBack :: "picker \<Rightarrow> picker" where
  "handleBack p = p\<lparr>advanced := False\<rparr>"

definition handleMoreSettings :: "picker \<Rightarrow> picker" where
  "handleMoreSettings p = p\<lparr>advanced := True\<rparr>"

definition pickColor :: "js_value \<Rightarrow> picker \<Rightarrow> js_error + picker" where
  "pickColor color p =
     (case (if typeof color \<noteq> ''string'' then get_hex (currentColor p) else Inr color) of
        Inl e \<Rightarrow> Inl e
      | Inr c \<Rightarrow>
          Inr (emit ''input'' [c] (emit ''update:value'' [c] (p\<lparr>currentColor := c\<rparr>))))"

section \<open>Re-encoding channels\<close>

text \<open>
  The source has only the decoder \<open>hexToRGB\<close>; nothing in it turns channels back
  into a string or normalizes a hex value. The round trip of the specification is
  stated against the following definitions.
\<close>

text \<open>
  Modelled from the spec: the hexadecimal digit of a value below 16, in lowercase
  (the encoder of the round trip is missing from the source).
\<close>

definition hexChar :: "nat \<Rightarrow> char" where
  "hexChar n = (if n < 10 then char_of (48 + n) else char_of (87 + n))"

text \<open>
  Modelled from the spec: one 8-bit channel re-encoded as two hexadecimal digits
  (the encoder of the round trip is missing from the source).
\<close>

definition channelToHex :: "js_number \<Rightarrow> string" where
  "channelToHex x =
     (case x of
        NaN \<Rightarrow> ''NaN''
      | Num q \<Rightarrow> (let n = nat \<lfloor>q\<rfloor> in [hexChar (n div 16 mod 16), hexChar (n mod 16)]))"

text \<open>
  Modelled from the spec: re-encoding the three channels as a hex value, six
  lowercase digits after \<open>#\<close> (the encoder is missing from the source).
\<close>

definition rgbToHex :: "js_number \<times> js_number \<times> js_number \<Rightarrow> string" where
  "rgbToHex ch =
     (case ch of (r, g, b) \<Rightarrow> CHR ''#'' # channelToHex r @ channelToHex g @ channelToHex b)"

text \<open>
  Modelled from the spec: the lowercase of a character, for the normalized form
  (no normalization is in the source).
\<close>

definition toLower :: "char \<Rightarrow> char" where
  "toLower c =
     (let n = (of_char c :: nat) in if 65 \<le> n \<and> n \<le> 90 then char_of (n + 32) else c)"

text \<open>
  Modelled from the spec: the normalized form of a hex value, lowercase and six
  digits; a 3-digit value doubles each digit (no normalization is in the source).
\<close>

definition normalizeHex :: "string \<Rightarrow> string" where
  "normalizeHex s =
     (let body = (case s of [] \<Rightarrow> s | c # t \<Rightarrow> if c = CHR ''#'' then t else s);
          six = (if length body = 3 then concat (map (\<lambda>c. [c, c]) body) else body)
      in CHR ''#'' # map toLower six)"

text \<open>
  Modelled from the spec: the round trip, decoding with the source's \<open>hexToRGB\<close> and
  re-encoding the channels it returns; \<open>None\<close> when there is nothing to encode.
\<close>

definition roundTrip :: "string \<Rightarrow> string option" where
  "roundTrip s = map_option rgbToHex (hexToRGB (JStr s))"

section \<open>The luma expression and the exact luma\<close>

text \<open>
  The expression that \<open>calculateLuma\<close> returns, as a function of the three channels.
\<close>

definition lumaExpr :: "js_number \<Rightarrow> js_number \<Rightarrow> js_number \<Rightarrow> js_number" where
  "lumaExpr red green blue =
     js_div
       (js_add
          (js_add (js_mul (literal 0.2126) red) (js_mul (literal 0.7152) green))
          (js_mul (literal 0.0722) blue))
       (Num 255)"

text \<open>
  Specification side: the luma of the specification, in exact arithmetic, for channel
  values \<open>r\<close>, \<open>g\<close>, \<open>b\<close>.
\<close>

definition exactLuma :: "nat \<Rightarrow> nat \<Rightarrow> nat \<Rightarrow> rat" where
  "exactLuma r g b = (0.2126 * of_nat r + 0.7152 * of_nat g + 0.0722 * of_nat b) / 255"

text \<open>
  For the proofs: whether some red and some blue channel, both up to 255, put the
  exact luma at one half for the green channel \<open>g\<close>. The exact luma is one half
  when \<open>1063 r + 3576 g + 361 b = 637500\<close>, which fixes \<open>r\<close> modulo 361.
\<close>

definition tieCond :: "int \<Rightarrow> bool" where
  "tieCond g =
     (let r = (254 - 110 * g) mod 361; rest = 637500 - 1063 * r - 3576 * g
      in r \<le> 255 \<and> 0 \<le> rest \<and> rest mod 361 = 0 \<and> rest div 361 \<le> 255)"

section \<open>Properties of the viewport mode observer\<close>

lemma priv_isMobile_fst: "fst (priv_isMobile e) = (clientWidth e < 768)"
  by (simp add: priv_isMobile_def Let_def)

lemma priv_isMobile_width: "clientWidth (snd (priv_isMobile e)) = clientWidth e"
  by (simp add: priv_isMobile_def Let_def)

lemma moduleLoad_isMobile: "isMobile (moduleLoad e) = (clientWidth e < 768)"
  by (simp add: moduleLoad_def priv_isMobile_def Let_def)

lemma moduleLoad_width: "clientWidth (moduleLoad e) = clientWidth e"
  by (simp add: moduleLoad_def priv_isMobile_def Let_def)

lemma moduleLoad_listeners: "resizeListeners (moduleLoad e) = [OnResize]"
  by (simp add: moduleLoad_def priv_isMobile_def Let_def)

lemma priv_onResize_isMobile: "isMobile (priv_onResize w) = (clientWidth w < 768)"
  by (simp add: priv_onResize_def priv_isMobile_def Let_def)

lemma priv_onResize_width: "clientWidth (priv_onResize w) = clientWidth w"
  by (simp add: priv_onResize_def priv_isMobile_def Let_def)

lemma priv_onResize_listeners: "resizeListeners (priv_onResize w) = resizeListeners w"
  by (simp add: priv_onResize_def priv_isMobile_def Let_def)

lemma dispatch_one:
  "resizeListeners w = [OnResize] \<Longrightarrow> dispatchResize w = priv_onResize w"
  by (simp add: dispatchResize_def)

lemma step_listeners:
  "resizeListeners w = [OnResize] \<Longrightarrow> resizeListeners (step w ev) = [OnResize]"
  by (cases ev) (simp_all add: dispatch_one priv_onResize_listeners)

lemma run_lastMeasured:
  "resizeListeners w = [OnResize] \<Longrightarrow> isMobile w = (m < 768) \<Longrightarrow>
   isMobile (foldl step w evs) = (lastMeasured (clientWidth w) m evs < 768)"
proof (induction evs arbitrary: w m)
  case Nil
  then show ?case by simp
next
  case (Cons ev evs)
  have l: "resizeListeners (step w ev) = [OnResize]"
    using Cons.prems(1) by (rule step_listeners)
  show ?case
  proof (cases ev)
    case (WidthChanged n)
    have "isMobile (step w ev) = (m < 768)"
      using Cons.prems(2) WidthChanged by simp
    from Cons.IH [OF l this] show ?thesis
      using WidthChanged by simp
  next
    case ResizeEvent
    have s: "step w ev = priv_onResize w"
      using ResizeEvent Cons.prems(1) by (simp add: dispatch_one)
    have "isMobile (step w ev) = (clientWidth w < 768)"
      by (simp add: s priv_onResize_isMobile)
    from Cons.IH [OF l this] show ?thesis
      using ResizeEvent s by (simp add: priv_onResize_width)
  next
    case ComponentCreated
    have "isMobile (step w ev) = (m < 768)"
      using Cons.prems(2) ComponentCreated by simp
    from Cons.IH [OF l this] show ?thesis
      using ComponentCreated by simp
  qed
qed

text \<open>
  C1. The viewport-mode query returns mobile exactly when the measured width is below
  768: at every width the result of \<open>_isMobile\<close> is the truth value of
  \<open>width < 768\<close>, so every width below 768 is mobile and every width from 768 on is
  not; at 767 it answers mobile and at 768 not mobile.
\<close>

theorem C1_isMobile_threshold:
  "fst (priv_isMobile e) = (clientWidth e < 768)
   \<and> fst (priv_isMobile (e\<lparr>clientWidth := 767\<rparr>))
   \<and> \<not> fst (priv_isMobile (e\<lparr>clientWidth := 768\<rparr>))"
  by (simp add: priv_isMobile_fst)

text \<open>
  C2. The shared flag equals \<open>measured width < 768\<close> as of the last observation.
  Loading the module stores the comparison for the width at that moment; a run of
  the resize handler stores the comparison for the width it measures; a change of
  the width without an event and a component's \<open>data()\<close> leave the flag alone; so
  after any sequence of events the flag is the comparison for the width measured
  last.
\<close>

theorem C2_flag_invariant:
  "isMobile (moduleLoad e) = (clientWidth e < 768)
   \<and> isMobile (priv_onResize w) = (clientWidth w < 768)
   \<and> isMobile (step w (WidthChanged n)) = isMobile w
   \<and> isMobile (step w ComponentCreated) = isMobile w
   \<and> isMobile (run (moduleLoad e) evs)
       = (lastMeasured (clientWidth e) (clientWidth e) evs < 768)"
proof -
  have "isMobile (run (moduleLoad e) evs)
          = (lastMeasured (clientWidth (moduleLoad e)) (clientWidth e) evs < 768)"
    unfolding run_def
    by (rule run_lastMeasured) (simp_all add: moduleLoad_listeners moduleLoad_isMobile)
  then show ?thesis
    by (simp add: moduleLoad_isMobile moduleLoad_width priv_onResize_isMobile)
qed

text \<open>
  C6. The resize handler is idempotent in the measured width: delivering a resize at
  the same width twice leaves the flag as the first delivery set it, namely
  \<open>width < 768\<close>. The handler has no failing branch: each run yields a world.
\<close>

theorem C6_resize_idempotent:
  "isMobile (priv_onResize (priv_onResize w)) = isMobile (priv_onResize w)
   \<and> isMobile (resizeWindowWidth n (resizeWindowWidth n (moduleLoad e)))
       = isMobile (resizeWindowWidth n (moduleLoad e))
   \<and> isMobile (resizeWindowWidth n (moduleLoad e)) = (n < 768)"
proof -
  let ?w1 = "(moduleLoad e)\<lparr>clientWidth := n\<rparr>"
  have l1: "resizeListeners ?w1 = [OnResize]"
    by (simp add: moduleLoad_listeners)
  have r1: "resizeWindowWidth n (moduleLoad e) = priv_onResize ?w1"
    unfolding resizeWindowWidth_def using l1 by (rule dispatch_one)
  let ?w2 = "(priv_onResize ?w1)\<lparr>clientWidth := n\<rparr>"
  have l2: "resizeListeners ?w2 = [OnResize]"
    by (simp add: priv_onResize_listeners moduleLoad_listeners)
  have r2: "resizeWindowWidth n (priv_onResize ?w1) = priv_onResize ?w2"
    unfolding resizeWindowWidth_def using l2 by (rule dispatch_one)
  show ?thesis
    by (simp add: r1 r2 priv_onResize_isMobile priv_onResize_width)
qed

section \<open>Properties of the dialog\<close>

text \<open>
  C8. The navigation of NcDialog is collapsed exactly when the observed width of the
  dialog wrapper is below 876; before anything has been observed the initial width
  900 applies and the navigation is not collapsed.
\<close>

theorem C8_navigation_collapsed:
  "isNavigationCollapsed (Some x) = (x < 876)
   \<and> dialogWidth None = 900
   \<and> \<not> isNavigationCollapsed None"
  by (simp add: isNavigationCollapsed_def dialogWidth_def useElementSize_width_def)

section \<open>Properties of the number model\<close>

text \<open>
  The exponent chosen by \<open>log2floor\<close> brackets its argument, rounding to an integer
  is off by at most one half, and so \<open>fl\<close> is within half a unit in the last place.
\<close>

lemma pow2_powi: "pow2 e = 2 powi e"
  by (simp add: pow2_def power_int_def inverse_eq_divide power_one_over)

lemma pow2_pos: "0 < pow2 e"
  by (simp add: pow2_powi)

lemma pow2_mono: "a \<le> b \<Longrightarrow> pow2 a \<le> pow2 b"
  by (simp add: pow2_powi power_int_increasing)

lemma pow2_neg: "pow2 (- int n) = 1 / 2 ^ n"
  by (simp add: pow2_powi power_int_minus inverse_eq_divide)

lemma roundHalfEven_near: "\<bar>of_int (roundHalfEven y) - y\<bar> \<le> 1 / 2"
proof -
  define f where "f = \<lfloor>y\<rfloor>"
  define d where "d = y - of_int f"
  have d: "0 \<le> d" "d < 1"
    unfolding d_def f_def by linarith+
  have y: "y = of_int f + d"
    by (simp add: d_def)
  have r: "roundHalfEven y =
      (if d < 1 / 2 then f else if 1 / 2 < d then f + 1 else if even f then f else f + 1)"
    by (simp add: roundHalfEven_def Let_def f_def d_def)
  show ?thesis
    unfolding r using d by (auto simp: abs_le_iff d_def)
qed

lemma log2floor_ge1:
  assumes "1 \<le> x"
  shows "pow2 (log2floor x) \<le> x \<and> x < pow2 (log2floor x + 1)"
proof -
  define n where "n = \<lfloor>x\<rfloor>"
  have n: "0 < n"
    unfolding n_def using assms by linarith
  from bitlen_bounds [OF n]
  have b: "2 ^ nat (bitlen n - 1) \<le> n" "n < 2 ^ nat (bitlen n)"
    by simp_all
  have k: "1 \<le> bitlen n"
    using n bitlen_eq_zero_iff [of n] bitlen_nonneg [of n] by linarith
  have e: "log2floor x = bitlen n - 1"
    using assms by (simp add: log2floor_def n_def)
  have p1: "pow2 (bitlen n - 1) = 2 ^ nat (bitlen n - 1)"
    using k by (simp add: pow2_def)
  have p2: "pow2 (bitlen n - 1 + 1) = 2 ^ nat (bitlen n)"
    using k by (simp add: pow2_def)
  have lo: "(2::rat) ^ nat (bitlen n - 1) \<le> of_int n"
    using b(1) by (metis of_int_le_iff of_int_numeral of_int_power)
  have "n + 1 \<le> 2 ^ nat (bitlen n)"
    using b(2) by simp
  then have hi: "of_int (n + 1) \<le> (2::rat) ^ nat (bitlen n)"
    by (metis of_int_le_iff of_int_numeral of_int_power)
  have "of_int n \<le> x" "x < of_int (n + 1)"
    unfolding n_def by linarith+
  with lo hi show ?thesis
    unfolding e p1 p2 by linarith
qed

lemma log2floor_lt1:
  assumes "0 < x" "x < 1"
  shows "pow2 (log2floor x) \<le> x \<and> x < pow2 (log2floor x + 1)"
proof -
  define y where "y = 1 / x"
  define m where "m = \<lceil>y\<rceil> - 1"
  have y1: "1 < y"
    unfolding y_def using assms by simp
  have m: "0 < m"
    unfolding m_def using y1 by linarith
  have my: "of_int m < y" "y \<le> of_int m + 1"
    unfolding m_def by linarith+
  from bitlen_bounds [OF m]
  have b: "2 ^ nat (bitlen m - 1) \<le> m" "m < 2 ^ nat (bitlen m)"
    by simp_all
  have k: "1 \<le> bitlen m"
    using m bitlen_eq_zero_iff [of m] bitlen_nonneg [of m] by linarith
  define j where "j = nat (bitlen m - 1)"
  have kj: "bitlen m = int j + 1"
    using k by (simp add: j_def)
  have e: "log2floor x = - int (Suc j)"
    using assms kj by (simp add: log2floor_def m_def y_def)
  have e1: "log2floor x + 1 = - int j"
    by (simp add: e)
  have lo: "(2::rat) ^ j \<le> of_int m"
    using b(1) unfolding j_def by (metis of_int_le_iff of_int_numeral of_int_power)
  have "m + 1 \<le> 2 ^ Suc j"
    using b(2) by (simp add: kj nat_add_distrib)
  then have hi: "of_int (m + 1) \<le> (2::rat) ^ Suc j"
    by (metis of_int_le_iff of_int_numeral of_int_power)
  have yhi: "y \<le> 2 ^ Suc j"
    using my(2) hi by simp
  have ylo: "2 ^ j < y"
    using my(1) lo by linarith
  have x: "x = 1 / y"
    by (simp add: y_def)
  have lo': "1 / 2 ^ Suc j \<le> x"
    unfolding x using yhi y1 by (intro divide_left_mono) simp_all
  have hi': "x < 1 / 2 ^ j"
    unfolding x using ylo y1 by (intro divide_strict_left_mono) simp_all
  have "pow2 (log2floor x) = 1 / 2 ^ Suc j"
    by (simp only: e pow2_neg)
  moreover have "pow2 (log2floor x + 1) = 1 / 2 ^ j"
    by (simp only: e1 pow2_neg)
  ultimately show ?thesis
    using lo' hi' by simp
qed

lemma log2floor_bounds:
  assumes "0 < x"
  shows "pow2 (log2floor x) \<le> x \<and> x < pow2 (log2floor x + 1)"
  using assms log2floor_ge1 [of x] log2floor_lt1 [of x] by (cases "1 \<le> x") simp_all

lemma fl_half_ulp:
  assumes "x \<noteq> 0"
  shows "\<bar>fl x - x\<bar> \<le> pow2 (max (log2floor \<bar>x\<bar>) (- 1022) - 52) / 2"
proof -
  define u where "u = pow2 (max (log2floor \<bar>x\<bar>) (- 1022) - 52)"
  have u: "0 < u"
    unfolding u_def by (rule pow2_pos)
  define r where "r = roundHalfEven (\<bar>x\<bar> / u)"
  have f: "fl x = sgn x * of_int r * u"
    using assms by (simp add: fl_def Let_def u_def r_def)
  have "\<bar>fl x - x\<bar> = \<bar>of_int r - \<bar>x\<bar> / u\<bar> * u"
  proof (cases "0 < x")
    case True
    then have "fl x - x = (of_int r - \<bar>x\<bar> / u) * u"
      using u by (simp add: f algebra_simps)
    then show ?thesis
      using u by (simp add: abs_mult)
  next
    case False
    then have "x < 0"
      using assms by simp
    then have "fl x - x = - ((of_int r - \<bar>x\<bar> / u) * u)"
      using u by (simp add: f algebra_simps)
    then show ?thesis
      using u by (simp add: abs_mult)
  qed
  also have "\<dots> \<le> 1 / 2 * u"
    using roundHalfEven_near [of "\<bar>x\<bar> / u"] u unfolding r_def
    by (intro mult_right_mono) simp_all
  finally show ?thesis
    by (simp add: u_def)
qed

text \<open>
  An exponent that brackets the argument is the one \<open>log2floor\<close> computes, so a
  rounding can be checked from its exponent and its integer significand alone.
\<close>

lemma pow2_less_cancel: "pow2 a \<le> x \<Longrightarrow> x < pow2 b \<Longrightarrow> a < b"
  using pow2_mono [of b a] by (cases "a < b") auto

lemma log2floor_unique:
  assumes "pow2 e \<le> x" "x < pow2 (e + 1)"
  shows "log2floor x = e"
proof -
  have x: "0 < x"
    using assms(1) pow2_pos [of e] by linarith
  note b = log2floor_bounds [OF x]
  have "log2floor x < e + 1"
    using b assms(2) by (blast intro: pow2_less_cancel)
  moreover have "e < log2floor x + 1"
    using b assms(1) by (blast intro: pow2_less_cancel)
  ultimately show ?thesis by simp
qed

lemma roundHalfEven_near_unique:
  assumes "\<bar>y - of_int m\<bar> < 1 / 2"
  shows "roundHalfEven y = m"
proof (cases "of_int m \<le> y")
  case True
  then have "\<lfloor>y\<rfloor> = m"
    using assms by (intro floor_unique) linarith+
  then show ?thesis
    using assms True by (simp add: roundHalfEven_def Let_def)
next
  case False
  then have "\<lfloor>y\<rfloor> = m - 1"
    using assms by (intro floor_unique) (simp, linarith)+
  then show ?thesis
    using assms False by (simp add: roundHalfEven_def Let_def)
qed

lemma roundHalfEven_tie:
  assumes "y = of_int m + 1 / 2"
  shows "roundHalfEven y = (if even m then m else m + 1)"
proof -
  have "\<lfloor>y\<rfloor> = m"
    unfolding assms by (intro floor_unique) simp_all
  then show ?thesis
    by (simp add: roundHalfEven_def Let_def assms)
qed

lemma fl_at:
  assumes "pow2 (k + 52) \<le> x" "x < pow2 (k + 53)" "- 1074 \<le> k"
  shows "fl x = of_int (roundHalfEven (x / pow2 k)) * pow2 k"
proof -
  have x: "0 < x"
    using assms(1) pow2_pos [of "k + 52"] by linarith
  have "x < pow2 (k + 52 + 1)"
    using assms(2) by (simp add: add.assoc)
  with assms(1) have "log2floor x = k + 52"
    by (rule log2floor_unique)
  moreover have "max (k + 52) (- 1022) - 52 = k"
    using assms(3) by simp
  ultimately show ?thesis
    using x by (simp add: fl_def Let_def)
qed

lemma fl_near:
  assumes "pow2 (k + 52) \<le> x" "x < pow2 (k + 53)" "- 1074 \<le> k"
    and "\<bar>x / pow2 k - of_int m\<bar> < 1 / 2"
  shows "fl x = of_int m * pow2 k"
  by (simp add: fl_at [OF assms(1-3)] roundHalfEven_near_unique [OF assms(4)])

lemma fl_tie:
  assumes "pow2 (k + 52) \<le> x" "x < pow2 (k + 53)" "- 1074 \<le> k"
    and "x / pow2 k = of_int m + 1 / 2"
  shows "fl x = of_int (if even m then m else m + 1) * pow2 k"
  by (simp only: fl_at [OF assms(1-3)] roundHalfEven_tie [OF assms(4)])

text \<open>
  Below 256 the spacing of binary64 values is at most \<open>2 ^ (- 45)\<close>, so each
  rounding there is off by at most \<open>2 ^ (- 46)\<close>.
\<close>

lemma roundHalfEven_nonneg:
  assumes "0 \<le> y"
  shows "0 \<le> roundHalfEven y"
proof -
  have "\<bar>of_int (roundHalfEven y) - y\<bar> \<le> 1 / 2"
    by (rule roundHalfEven_near)
  then have "y - 1 / 2 \<le> of_int (roundHalfEven y)"
    by linarith
  with assms have "(of_int (- 1) :: rat) < of_int (roundHalfEven y)"
    by simp
  then have "- 1 < roundHalfEven y"
    by (simp only: of_int_less_iff)
  then show ?thesis
    by simp
qed

lemma fl_nonneg: "0 \<le> x \<Longrightarrow> 0 \<le> fl x"
  using pow2_pos by (simp add: fl_def Let_def roundHalfEven_nonneg less_imp_le)

lemma fl_err_small:
  assumes "0 \<le> x" "x < 256"
  shows "x - 1 / 2 ^ 46 \<le> fl x \<and> fl x \<le> x + 1 / 2 ^ 46"
proof (cases "x = 0")
  case True
  then show ?thesis by (simp add: fl_def)
next
  case False
  then have x: "0 < x"
    using assms(1) by simp
  have "x < pow2 8"
    using assms(2) by (simp add: pow2_def)
  with log2floor_bounds [OF x] have "log2floor x < 8"
    by (blast intro: pow2_less_cancel)
  then have "max (log2floor \<bar>x\<bar>) (- 1022) - 52 \<le> - 45"
    using x by simp
  then have "pow2 (max (log2floor \<bar>x\<bar>) (- 1022) - 52) \<le> pow2 (- 45)"
    by (rule pow2_mono)
  also have "pow2 (- 45) = 1 / 2 ^ 45"
    by (simp add: pow2_def)
  finally have "\<bar>fl x - x\<bar> \<le> 1 / 2 ^ 46"
    using fl_half_ulp [OF False] by simp
  then show ?thesis
    by (simp only: abs_le_iff) linarith
qed

lemma scale_bound:
  fixes c q e X :: rat
  assumes "q - e \<le> c" "c \<le> q + e" "0 \<le> X" "X \<le> 255" "0 \<le> e"
  shows "q * X - 255 * e \<le> c * X \<and> c * X \<le> q * X + 255 * e"
proof -
  have eX: "e * X \<le> e * 255"
    using assms(4) assms(5) by (rule mult_left_mono)
  have "(c - q) * X \<le> e * X"
    using assms(2) assms(3) by (intro mult_right_mono) simp_all
  moreover have "(q - c) * X \<le> e * X"
    using assms(1) assms(3) by (intro mult_right_mono) simp_all
  ultimately show ?thesis
    using eX by (simp add: algebra_simps)
qed

lemma lumaExpr_error:
  assumes "r \<le> 255" "g \<le> 255" "b \<le> 255"
  shows "\<exists>l. lumaExpr (Num (of_nat r)) (Num (of_nat g)) (Num (of_nat b)) = Num l
             \<and> \<bar>l - exactLuma r g b\<bar> \<le> 5 / 2 ^ 46"
proof -
  define R G B :: rat where "R = of_nat r" and "G = of_nat g" and "B = of_nat b"
  have rgb: "0 \<le> R" "R \<le> 255" "0 \<le> G" "G \<le> 255" "0 \<le> B" "B \<le> 255"
    using assms unfolding R_def G_def B_def by simp_all
  define eps :: rat where "eps = 1 / 2 ^ 46"
  have eps: "0 \<le> eps" "eps * 1000000 \<le> 1"
    by (simp_all add: eps_def)
  have flb: "x - eps \<le> fl x \<and> fl x \<le> x + eps" if "0 \<le> x" "x < 256" for x
    using fl_err_small [OF that] by (simp add: eps_def)
  define c1 c2 c3 where "c1 = fl (1063 / 5000)" and "c2 = fl (447 / 625)"
    and "c3 = fl (361 / 5000)"
  have c1: "1063 / 5000 - eps \<le> c1" "c1 \<le> 1063 / 5000 + eps"
    using flb [of "1063 / 5000"] by (simp_all add: c1_def)
  have c2: "447 / 625 - eps \<le> c2" "c2 \<le> 447 / 625 + eps"
    using flb [of "447 / 625"] by (simp_all add: c2_def)
  have c3: "361 / 5000 - eps \<le> c3" "c3 \<le> 361 / 5000 + eps"
    using flb [of "361 / 5000"] by (simp_all add: c3_def)
  note m1 = scale_bound [OF c1 rgb(1) rgb(2) eps(1)]
  note m2 = scale_bound [OF c2 rgb(3) rgb(4) eps(1)]
  note m3 = scale_bound [OF c3 rgb(5) rgb(6) eps(1)]
  define a1 a2 a3 where "a1 = fl (c1 * R)" and "a2 = fl (c2 * G)" and "a3 = fl (c3 * B)"
  have "0 \<le> c1"
    using c1(1) eps by linarith
  then have n1: "0 \<le> c1 * R"
    using rgb by (intro mult_nonneg_nonneg)
  moreover have "c1 * R < 256"
    using m1 rgb eps by linarith
  ultimately have a1: "c1 * R - eps \<le> a1" "a1 \<le> c1 * R + eps"
    using flb [of "c1 * R"] by (simp_all add: a1_def)
  have a1n: "0 \<le> a1"
    unfolding a1_def using n1 by (rule fl_nonneg)
  have "0 \<le> c2"
    using c2(1) eps by linarith
  then have n2: "0 \<le> c2 * G"
    using rgb by (intro mult_nonneg_nonneg)
  moreover have "c2 * G < 256"
    using m2 rgb eps by linarith
  ultimately have a2: "c2 * G - eps \<le> a2" "a2 \<le> c2 * G + eps"
    using flb [of "c2 * G"] by (simp_all add: a2_def)
  have a2n: "0 \<le> a2"
    unfolding a2_def using n2 by (rule fl_nonneg)
  have "0 \<le> c3"
    using c3(1) eps by linarith
  then have n3: "0 \<le> c3 * B"
    using rgb by (intro mult_nonneg_nonneg)
  moreover have "c3 * B < 256"
    using m3 rgb eps by linarith
  ultimately have a3: "c3 * B - eps \<le> a3" "a3 \<le> c3 * B + eps"
    using flb [of "c3 * B"] by (simp_all add: a3_def)
  have a3n: "0 \<le> a3"
    unfolding a3_def using n3 by (rule fl_nonneg)
  define s1 where "s1 = fl (a1 + a2)"
  have "0 \<le> a1 + a2" "a1 + a2 < 256"
    using a1 a2 a1n a2n m1 m2 rgb eps by linarith+
  from flb [OF this] have s1: "a1 + a2 - eps \<le> s1" "s1 \<le> a1 + a2 + eps"
    by (simp_all add: s1_def)
  have s1n: "0 \<le> s1"
    unfolding s1_def using \<open>0 \<le> a1 + a2\<close> by (rule fl_nonneg)
  define s2 where "s2 = fl (s1 + a3)"
  have "0 \<le> s1 + a3" "s1 + a3 < 256"
    using s1 s1n a1 a2 a3 a3n m1 m2 m3 rgb eps by linarith+
  from flb [OF this] have s2: "s1 + a3 - eps \<le> s2" "s2 \<le> s1 + a3 + eps"
    by (simp_all add: s2_def)
  have s2n: "0 \<le> s2"
    unfolding s2_def using \<open>0 \<le> s1 + a3\<close> by (rule fl_nonneg)
  define E where "E = 1063 / 5000 * R + 447 / 625 * G + 361 / 5000 * B"
  have s2E: "E - 770 * eps \<le> s2" "s2 \<le> E + 770 * eps"
    unfolding E_def using s2 s1 a1 a2 a3 m1 m2 m3 by linarith+
  have E255: "0 \<le> E" "E \<le> 255"
    unfolding E_def using rgb by linarith+
  define l where "l = fl (s2 / 255)"
  have "0 \<le> s2 / 255" "s2 / 255 < 256"
    using s2E E255 eps s2n by simp_all
  from flb [OF this] have l: "s2 / 255 - eps \<le> l" "l \<le> s2 / 255 + eps"
    by (simp_all add: l_def)
  have Ex: "exactLuma r g b = E / 255"
    by (simp add: exactLuma_def E_def R_def G_def B_def)
  have "\<bar>l - E / 255\<bar> \<le> 5 * eps"
    using l s2E eps by linarith
  then have "\<bar>l - exactLuma r g b\<bar> \<le> 5 / 2 ^ 46"
    unfolding Ex eps_def by simp
  moreover have "lumaExpr (Num (of_nat r)) (Num (of_nat g)) (Num (of_nat b)) = Num l"
    by (simp add: lumaExpr_def literal_def l_def s2_def s1_def a1_def a2_def a3_def
        c1_def c2_def c3_def R_def G_def B_def)
  ultimately show ?thesis
    by blast
qed

section \<open>The luma expression against the exact luma\<close>

text \<open>
  The channel triples whose exact luma is one half: sixteen of them.
\<close>

lemma tie_candidates:
  "filter tieCond [0..255] = [92, 99, 102, 109, 112, 116, 119, 126, 129, 136, 139, 143, 146, 153, 156, 163]"
  by code_simp

lemma tie_solve:
  fixes r g b :: nat
  assumes eq: "1063 * r + 3576 * g + 361 * b = 637500"
    and r: "r \<le> 255" and g: "g \<le> 255" and b: "b \<le> 255"
  shows "int r = (254 - 110 * int g) mod 361"
    and "int b = (637500 - 1063 * int r - 3576 * int g) div 361"
    and "tieCond (int g)"
proof -
  have ie: "1063 * int r + 3576 * int g + 361 * int b = 637500"
    using eq by linarith
  then have "254 - 110 * int g = int r + (53 * int r + 178 * int g + 18 * int b - 31786) * 361"
    by (simp add: algebra_simps)
  then have "(254 - 110 * int g) mod 361 = int r mod 361"
    by (simp only: mod_mult_self1)
  then show r': "int r = (254 - 110 * int g) mod 361"
    using r by simp
  have "637500 - 1063 * int r - 3576 * int g = int b * 361"
    using ie by linarith
  then show b': "int b = (637500 - 1063 * int r - 3576 * int g) div 361"
    by simp
  have "(637500 - 1063 * int r - 3576 * int g) mod 361 = 0"
    using \<open>637500 - 1063 * int r - 3576 * int g = int b * 361\<close> by simp
  moreover have "0 \<le> 637500 - 1063 * int r - 3576 * int g"
    using ie by linarith
  ultimately show "tieCond (int g)"
    unfolding tieCond_def Let_def using r b r' [symmetric] b' [symmetric] by simp
qed

lemma tie_enumeration:
  fixes r g b :: nat
  assumes eq: "1063 * r + 3576 * g + 361 * b = 637500"
    and r: "r \<le> 255" and g: "g \<le> 255" and b: "b \<le> 255"
  shows "(r, g, b) \<in> {(13, 163, 113), (30, 153, 162), (47, 143, 211), (61, 156, 41),
     (78, 146, 90), (95, 136, 139), (112, 126, 188), (126, 139, 18), (129, 116, 237),
     (143, 129, 67), (160, 119, 116), (177, 109, 165), (194, 99, 214), (208, 112, 44),
     (225, 102, 93), (242, 92, 142)}"
proof -
  note s = tie_solve [OF assms]
  have "int g \<in> set [0..255]"
    using g by simp
  with s(3) have "int g \<in> set (filter tieCond [0..255])"
    by simp
  then have "int g \<in> {92, 99, 102, 109, 112, 116, 119, 126, 129, 136, 139, 143, 146, 153, 156, 163}"
    unfolding tie_candidates by simp
  then consider "g = 92" | "g = 99" | "g = 102" | "g = 109" | "g = 112" | "g = 116"
    | "g = 119" | "g = 126" | "g = 129" | "g = 136" | "g = 139" | "g = 143" | "g = 146"
    | "g = 153" | "g = 156" | "g = 163"
    by auto
  then show ?thesis
    using s(1) s(2) by cases simp_all
qed

text \<open>
  The three literals, and the luma expression at the sixteen triples and at white,
  each rounding checked from its exponent and significand.
\<close>

lemma lit_2126: "literal 0.2126 = Num (1914930561557935 / 9007199254740992)"
  unfolding literal_def
  using fl_near [where x = "0.2126" and k = "- 55" and m = 7659722246231740]
  by (simp add: pow2_def)

lemma lit_7152: "literal 0.7152 = Num (6441948906990757 / 9007199254740992)"
  unfolding literal_def
  using fl_near [where x = "0.7152" and k = "- 53" and m = 6441948906990757]
  by (simp add: pow2_def)

lemma lit_0722: "literal 0.0722 = Num (5202558289538397 / 72057594037927936)"
  unfolding literal_def
  using fl_near [where x = "0.0722" and k = "- 56" and m = 5202558289538397]
  by (simp add: pow2_def)

lemma lumaExpr_13_163_113:
  "lumaExpr (Num 13) (Num 163) (Num 113) = Num (1 / 2)"
proof -
  have p1: "js_mul (Num (1914930561557935 / 9007199254740992)) (Num 13)
      = Num (6223524325063289 / 2251799813685248)"
    using fl_near [where k = "- 51" and m = 6223524325063289
        and x = "(1914930561557935 / 9007199254740992) * 13"]
    by (simp add: pow2_def)
  have p2: "js_mul (Num (6441948906990757 / 9007199254740992)) (Num 163)
      = Num (4101709655623021 / 35184372088832)"
    using fl_near [where k = "- 46" and m = 8203419311246042
        and x = "(6441948906990757 / 9007199254740992) * 163"]
    by (simp add: pow2_def)
  have p3: "js_mul (Num (5202558289538397 / 72057594037927936)) (Num 113)
      = Num (1148220872495779 / 140737488355328)"
    using fl_near [where k = "- 49" and m = 4592883489983116
        and x = "(5202558289538397 / 72057594037927936) * 113"]
    by (simp add: pow2_def)
  have s1: "js_add (Num (6223524325063289 / 2251799813685248)) (Num (4101709655623021 / 35184372088832))
      = Num (4198952223202135 / 35184372088832)"
    using fl_near [where k = "- 46" and m = 8397904446404270
        and x = "(6223524325063289 / 2251799813685248) + (4101709655623021 / 35184372088832)"]
    by (simp add: pow2_def)
  have s2: "js_add (Num (4198952223202135 / 35184372088832)) (Num (1148220872495779 / 140737488355328))
      = Num (255 / 2)"
    using fl_tie [where k = "- 46" and m = 8972014882652159
        and x = "(4198952223202135 / 35184372088832) + (1148220872495779 / 140737488355328)"]
    by (simp add: pow2_def)
  have l: "js_div (Num (255 / 2)) (Num 255)
      = Num (1 / 2)"
    using fl_near [where k = "- 53" and m = 4503599627370496
        and x = "(255 / 2) / 255"]
    by (simp add: pow2_def)
  show ?thesis
    by (simp only: lumaExpr_def lit_2126 lit_7152 lit_0722 p1 p2 p3 s1 s2 l)
qed

lemma lumaExpr_30_153_162:
  "lumaExpr (Num 30) (Num 153) (Num 162) = Num (9007199254740991 / 18014398509481984)"
proof -
  have p1: "js_mul (Num (1914930561557935 / 9007199254740992)) (Num 30)
      = Num (448811850365141 / 70368744177664)"
    using fl_near [where k = "- 50" and m = 7180989605842256
        and x = "(1914930561557935 / 9007199254740992) * 30"]
    by (simp add: pow2_def)
  have p2: "js_mul (Num (6441948906990757 / 9007199254740992)) (Num 153)
      = Num (7700142052887389 / 70368744177664)"
    using fl_near [where k = "- 46" and m = 7700142052887389
        and x = "(6441948906990757 / 9007199254740992) * 153"]
    by (simp add: pow2_def)
  have p3: "js_mul (Num (5202558289538397 / 72057594037927936)) (Num 162)
      = Num (3292243917598517 / 281474976710656)"
    using fl_near [where k = "- 49" and m = 6584487835197034
        and x = "(5202558289538397 / 72057594037927936) * 162"]
    by (simp add: pow2_def)
  have s1: "js_add (Num (448811850365141 / 70368744177664)) (Num (7700142052887389 / 70368744177664))
      = Num (4074476951626265 / 35184372088832)"
    using fl_near [where k = "- 46" and m = 8148953903252530
        and x = "(448811850365141 / 70368744177664) + (7700142052887389 / 70368744177664)"]
    by (simp add: pow2_def)
  have s2: "js_add (Num (4074476951626265 / 35184372088832)) (Num (3292243917598517 / 281474976710656))
      = Num (8972014882652159 / 70368744177664)"
    using fl_near [where k = "- 46" and m = 8972014882652159
        and x = "(4074476951626265 / 35184372088832) + (3292243917598517 / 281474976710656)"]
    by (simp add: pow2_def)
  have l: "js_div (Num (8972014882652159 / 70368744177664)) (Num 255)
      = Num (9007199254740991 / 18014398509481984)"
    using fl_near [where k = "- 54" and m = 9007199254740991
        and x = "(8972014882652159 / 70368744177664) / 255"]
    by (simp add: pow2_def)
  show ?thesis
    by (simp only: lumaExpr_def lit_2126 lit_7152 lit_0722 p1 p2 p3 s1 s2 l)
qed

lemma lumaExpr_47_143_211:
  "lumaExpr (Num 47) (Num 143) (Num 211) = Num (9007199254740991 / 18014398509481984)"
proof -
  have p1: "js_mul (Num (1914930561557935 / 9007199254740992)) (Num 47)
      = Num (2812554262288217 / 281474976710656)"
    using fl_near [where k = "- 49" and m = 5625108524576434
        and x = "(1914930561557935 / 9007199254740992) * 47"]
    by (simp add: pow2_def)
  have p2: "js_mul (Num (6441948906990757 / 9007199254740992)) (Num 143)
      = Num (224902024829023 / 2199023255552)"
    using fl_near [where k = "- 46" and m = 7196864794528736
        and x = "(6441948906990757 / 9007199254740992) * 143"]
    by (simp add: pow2_def)
  have p3: "js_mul (Num (5202558289538397 / 72057594037927936)) (Num 211)
      = Num (8576092180410951 / 562949953421312)"
    using fl_near [where k = "- 49" and m = 8576092180410951
        and x = "(5202558289538397 / 72057594037927936) * 211"]
    by (simp add: pow2_def)
  have s1: "js_add (Num (2812554262288217 / 281474976710656)) (Num (224902024829023 / 2199023255552))
      = Num (3950001680050395 / 35184372088832)"
    using fl_near [where k = "- 46" and m = 7900003360100790
        and x = "(2812554262288217 / 281474976710656) + (224902024829023 / 2199023255552)"]
    by (simp add: pow2_def)
  have s2: "js_add (Num (3950001680050395 / 35184372088832)) (Num (8576092180410951 / 562949953421312))
      = Num (8972014882652159 / 70368744177664)"
    using fl_near [where k = "- 46" and m = 8972014882652159
        and x = "(3950001680050395 / 35184372088832) + (8576092180410951 / 562949953421312)"]
    by (simp add: pow2_def)
  have l: "js_div (Num (8972014882652159 / 70368744177664)) (Num 255)
      = Num (9007199254740991 / 18014398509481984)"
    using fl_near [where k = "- 54" and m = 9007199254740991
        and x = "(8972014882652159 / 70368744177664) / 255"]
    by (simp add: pow2_def)
  show ?thesis
    by (simp only: lumaExpr_def lit_2126 lit_7152 lit_0722 p1 p2 p3 s1 s2 l)
qed

lemma lumaExpr_61_156_41:
  "lumaExpr (Num 61) (Num 156) (Num 41) = Num (9007199254740991 / 18014398509481984)"
proof -
  have p1: "js_mul (Num (1914930561557935 / 9007199254740992)) (Num 61)
      = Num (7300672765939627 / 562949953421312)"
    using fl_near [where k = "- 49" and m = 7300672765939627
        and x = "(1914930561557935 / 9007199254740992) * 61"]
    by (simp add: pow2_def)
  have p2: "js_mul (Num (6441948906990757 / 9007199254740992)) (Num 156)
      = Num (7851125230394985 / 70368744177664)"
    using fl_near [where k = "- 46" and m = 7851125230394985
        and x = "(6441948906990757 / 9007199254740992) * 156"]
    by (simp add: pow2_def)
  have p3: "js_mul (Num (5202558289538397 / 72057594037927936)) (Num 41)
      = Num (6665777808471071 / 2251799813685248)"
    using fl_near [where k = "- 51" and m = 6665777808471071
        and x = "(5202558289538397 / 72057594037927936) * 41"]
    by (simp add: pow2_def)
  have s1: "js_add (Num (7300672765939627 / 562949953421312)) (Num (7851125230394985 / 70368744177664))
      = Num (4381854663068719 / 35184372088832)"
    using fl_near [where k = "- 46" and m = 8763709326137438
        and x = "(7300672765939627 / 562949953421312) + (7851125230394985 / 70368744177664)"]
    by (simp add: pow2_def)
  have s2: "js_add (Num (4381854663068719 / 35184372088832)) (Num (6665777808471071 / 2251799813685248))
      = Num (8972014882652159 / 70368744177664)"
    using fl_near [where k = "- 46" and m = 8972014882652159
        and x = "(4381854663068719 / 35184372088832) + (6665777808471071 / 2251799813685248)"]
    by (simp add: pow2_def)
  have l: "js_div (Num (8972014882652159 / 70368744177664)) (Num 255)
      = Num (9007199254740991 / 18014398509481984)"
    using fl_near [where k = "- 54" and m = 9007199254740991
        and x = "(8972014882652159 / 70368744177664) / 255"]
    by (simp add: pow2_def)
  show ?thesis
    by (simp only: lumaExpr_def lit_2126 lit_7152 lit_0722 p1 p2 p3 s1 s2 l)
qed

lemma lumaExpr_78_146_90:
  "lumaExpr (Num 78) (Num 146) (Num 90) = Num (1 / 2)"
proof -
  have p1: "js_mul (Num (1914930561557935 / 9007199254740992)) (Num 78)
      = Num (4667643243797467 / 281474976710656)"
    using fl_near [where k = "- 48" and m = 4667643243797467
        and x = "(1914930561557935 / 9007199254740992) * 78"]
    by (simp add: pow2_def)
  have p2: "js_mul (Num (6441948906990757 / 9007199254740992)) (Num 146)
      = Num (1836961993009083 / 17592186044416)"
    using fl_near [where k = "- 46" and m = 7347847972036332
        and x = "(6441948906990757 / 9007199254740992) * 146"]
    by (simp add: pow2_def)
  have p3: "js_mul (Num (5202558289538397 / 72057594037927936)) (Num 90)
      = Num (7316097594663371 / 1125899906842624)"
    using fl_near [where k = "- 50" and m = 7316097594663371
        and x = "(5202558289538397 / 72057594037927936) * 90"]
    by (simp add: pow2_def)
  have s1: "js_add (Num (4667643243797467 / 281474976710656)) (Num (1836961993009083 / 17592186044416))
      = Num (8514758782985699 / 70368744177664)"
    using fl_near [where k = "- 46" and m = 8514758782985699
        and x = "(4667643243797467 / 281474976710656) + (1836961993009083 / 17592186044416)"]
    by (simp add: pow2_def)
  have s2: "js_add (Num (8514758782985699 / 70368744177664)) (Num (7316097594663371 / 1125899906842624))
      = Num (255 / 2)"
    using fl_near [where k = "- 46" and m = 8972014882652160
        and x = "(8514758782985699 / 70368744177664) + (7316097594663371 / 1125899906842624)"]
    by (simp add: pow2_def)
  have l: "js_div (Num (255 / 2)) (Num 255)
      = Num (1 / 2)"
    using fl_near [where k = "- 53" and m = 4503599627370496
        and x = "(255 / 2) / 255"]
    by (simp add: pow2_def)
  show ?thesis
    by (simp only: lumaExpr_def lit_2126 lit_7152 lit_0722 p1 p2 p3 s1 s2 l)
qed

lemma lumaExpr_95_136_139:
  "lumaExpr (Num 95) (Num 136) (Num 139) = Num (9007199254740991 / 18014398509481984)"
proof -
  have p1: "js_mul (Num (1914930561557935 / 9007199254740992)) (Num 95)
      = Num (177654690769535 / 8796093022208)"
    using fl_near [where k = "- 48" and m = 5684950104625120
        and x = "(1914930561557935 / 9007199254740992) * 95"]
    by (simp add: pow2_def)
  have p2: "js_mul (Num (6441948906990757 / 9007199254740992)) (Num 136)
      = Num (6844570713677679 / 70368744177664)"
    using fl_near [where k = "- 46" and m = 6844570713677679
        and x = "(6441948906990757 / 9007199254740992) * 136"]
    by (simp add: pow2_def)
  have p3: "js_mul (Num (5202558289538397 / 72057594037927936)) (Num 139)
      = Num (5649653142545603 / 562949953421312)"
    using fl_near [where k = "- 49" and m = 5649653142545603
        and x = "(5202558289538397 / 72057594037927936) * 139"]
    by (simp add: pow2_def)
  have s1: "js_add (Num (177654690769535 / 8796093022208)) (Num (6844570713677679 / 70368744177664))
      = Num (8265808239833959 / 70368744177664)"
    using fl_near [where k = "- 46" and m = 8265808239833959
        and x = "(177654690769535 / 8796093022208) + (6844570713677679 / 70368744177664)"]
    by (simp add: pow2_def)
  have s2: "js_add (Num (8265808239833959 / 70368744177664)) (Num (5649653142545603 / 562949953421312))
      = Num (8972014882652159 / 70368744177664)"
    using fl_near [where k = "- 46" and m = 8972014882652159
        and x = "(8265808239833959 / 70368744177664) + (5649653142545603 / 562949953421312)"]
    by (simp add: pow2_def)
  have l: "js_div (Num (8972014882652159 / 70368744177664)) (Num 255)
      = Num (9007199254740991 / 18014398509481984)"
    using fl_near [where k = "- 54" and m = 9007199254740991
        and x = "(8972014882652159 / 70368744177664) / 255"]
    by (simp add: pow2_def)
  show ?thesis
    by (simp only: lumaExpr_def lit_2126 lit_7152 lit_0722 p1 p2 p3 s1 s2 l)
qed

lemma lumaExpr_112_126_188:
  "lumaExpr (Num 112) (Num 126) (Num 188) = Num (9007199254740991 / 18014398509481984)"
proof -
  have p1: "js_mul (Num (1914930561557935 / 9007199254740992)) (Num 112)
      = Num (1675564241363193 / 70368744177664)"
    using fl_tie [where k = "- 48" and m = 6702256965452772
        and x = "(1914930561557935 / 9007199254740992) * 112"]
    by (simp add: pow2_def)
  have p2: "js_mul (Num (6441948906990757 / 9007199254740992)) (Num 126)
      = Num (3170646727659513 / 35184372088832)"
    using fl_near [where k = "- 46" and m = 6341293455319026
        and x = "(6441948906990757 / 9007199254740992) * 126"]
    by (simp add: pow2_def)
  have p3: "js_mul (Num (5202558289538397 / 72057594037927936)) (Num 188)
      = Num (7641257487759521 / 562949953421312)"
    using fl_near [where k = "- 49" and m = 7641257487759521
        and x = "(5202558289538397 / 72057594037927936) * 188"]
    by (simp add: pow2_def)
  have s1: "js_add (Num (1675564241363193 / 70368744177664)) (Num (3170646727659513 / 35184372088832))
      = Num (8016857696682219 / 70368744177664)"
    using fl_near [where k = "- 46" and m = 8016857696682219
        and x = "(1675564241363193 / 70368744177664) + (3170646727659513 / 35184372088832)"]
    by (simp add: pow2_def)
  have s2: "js_add (Num (8016857696682219 / 70368744177664)) (Num (7641257487759521 / 562949953421312))
      = Num (8972014882652159 / 70368744177664)"
    using fl_near [where k = "- 46" and m = 8972014882652159
        and x = "(8016857696682219 / 70368744177664) + (7641257487759521 / 562949953421312)"]
    by (simp add: pow2_def)
  have l: "js_div (Num (8972014882652159 / 70368744177664)) (Num 255)
      = Num (9007199254740991 / 18014398509481984)"
    using fl_near [where k = "- 54" and m = 9007199254740991
        and x = "(8972014882652159 / 70368744177664) / 255"]
    by (simp add: pow2_def)
  show ?thesis
    by (simp only: lumaExpr_def lit_2126 lit_7152 lit_0722 p1 p2 p3 s1 s2 l)
qed

lemma lumaExpr_126_139_18:
  "lumaExpr (Num 126) (Num 139) (Num 18) = Num (9007199254740991 / 18014398509481984)"
proof -
  have p1: "js_mul (Num (1914930561557935 / 9007199254740992)) (Num 126)
      = Num (7540039086134369 / 281474976710656)"
    using fl_near [where k = "- 48" and m = 7540039086134369
        and x = "(1914930561557935 / 9007199254740992) * 126"]
    by (simp add: pow2_def)
  have p2: "js_mul (Num (6441948906990757 / 9007199254740992)) (Num 139)
      = Num (6995553891185275 / 70368744177664)"
    using fl_near [where k = "- 46" and m = 6995553891185275
        and x = "(6441948906990757 / 9007199254740992) * 139"]
    by (simp add: pow2_def)
  have p3: "js_mul (Num (5202558289538397 / 72057594037927936)) (Num 18)
      = Num (5852878075730697 / 4503599627370496)"
    using fl_near [where k = "- 52" and m = 5852878075730697
        and x = "(5202558289538397 / 72057594037927936) * 18"]
    by (simp add: pow2_def)
  have s1: "js_add (Num (7540039086134369 / 281474976710656)) (Num (6995553891185275 / 70368744177664))
      = Num (8880563662718867 / 70368744177664)"
    using fl_near [where k = "- 46" and m = 8880563662718867
        and x = "(7540039086134369 / 281474976710656) + (6995553891185275 / 70368744177664)"]
    by (simp add: pow2_def)
  have s2: "js_add (Num (8880563662718867 / 70368744177664)) (Num (5852878075730697 / 4503599627370496))
      = Num (8972014882652159 / 70368744177664)"
    using fl_near [where k = "- 46" and m = 8972014882652159
        and x = "(8880563662718867 / 70368744177664) + (5852878075730697 / 4503599627370496)"]
    by (simp add: pow2_def)
  have l: "js_div (Num (8972014882652159 / 70368744177664)) (Num 255)
      = Num (9007199254740991 / 18014398509481984)"
    using fl_near [where k = "- 54" and m = 9007199254740991
        and x = "(8972014882652159 / 70368744177664) / 255"]
    by (simp add: pow2_def)
  show ?thesis
    by (simp only: lumaExpr_def lit_2126 lit_7152 lit_0722 p1 p2 p3 s1 s2 l)
qed

lemma lumaExpr_129_116_237:
  "lumaExpr (Num 129) (Num 116) (Num 237) = Num (1 / 2)"
proof -
  have p1: "js_mul (Num (1914930561557935 / 9007199254740992)) (Num 129)
      = Num (7719563826280425 / 281474976710656)"
    using fl_near [where k = "- 48" and m = 7719563826280425
        and x = "(1914930561557935 / 9007199254740992) * 129"]
    by (simp add: pow2_def)
  have p2: "js_mul (Num (6441948906990757 / 9007199254740992)) (Num 116)
      = Num (2919008098480187 / 35184372088832)"
    using fl_near [where k = "- 46" and m = 5838016196960374
        and x = "(6441948906990757 / 9007199254740992) * 116"]
    by (simp add: pow2_def)
  have p3: "js_mul (Num (5202558289538397 / 72057594037927936)) (Num 237)
      = Num (4816430916486719 / 281474976710656)"
    using fl_near [where k = "- 48" and m = 4816430916486719
        and x = "(5202558289538397 / 72057594037927936) * 237"]
    by (simp add: pow2_def)
  have s1: "js_add (Num (7719563826280425 / 281474976710656)) (Num (2919008098480187 / 35184372088832))
      = Num (485494197095655 / 4398046511104)"
    using fl_near [where k = "- 46" and m = 7767907153530480
        and x = "(7719563826280425 / 281474976710656) + (2919008098480187 / 35184372088832)"]
    by (simp add: pow2_def)
  have s2: "js_add (Num (485494197095655 / 4398046511104)) (Num (4816430916486719 / 281474976710656))
      = Num (255 / 2)"
    using fl_near [where k = "- 46" and m = 8972014882652160
        and x = "(485494197095655 / 4398046511104) + (4816430916486719 / 281474976710656)"]
    by (simp add: pow2_def)
  have l: "js_div (Num (255 / 2)) (Num 255)
      = Num (1 / 2)"
    using fl_near [where k = "- 53" and m = 4503599627370496
        and x = "(255 / 2) / 255"]
    by (simp add: pow2_def)
  show ?thesis
    by (simp only: lumaExpr_def lit_2126 lit_7152 lit_0722 p1 p2 p3 s1 s2 l)
qed

lemma lumaExpr_143_129_67:
  "lumaExpr (Num 143) (Num 129) (Num 67) = Num (1 / 2)"
proof -
  have p1: "js_mul (Num (1914930561557935 / 9007199254740992)) (Num 143)
      = Num (4278672973481011 / 140737488355328)"
    using fl_near [where k = "- 48" and m = 8557345946962022
        and x = "(1914930561557935 / 9007199254740992) * 143"]
    by (simp add: pow2_def)
  have p2: "js_mul (Num (6441948906990757 / 9007199254740992)) (Num 129)
      = Num (3246138316413311 / 35184372088832)"
    using fl_near [where k = "- 46" and m = 6492276632826622
        and x = "(6441948906990757 / 9007199254740992) * 129"]
    by (simp add: pow2_def)
  have p3: "js_mul (Num (5202558289538397 / 72057594037927936)) (Num 67)
      = Num (5446428209360509 / 1125899906842624)"
    using fl_near [where k = "- 50" and m = 5446428209360509
        and x = "(5202558289538397 / 72057594037927936) * 67"]
    by (simp add: pow2_def)
  have s1: "js_add (Num (4278672973481011 / 140737488355328)) (Num (3246138316413311 / 35184372088832))
      = Num (1078951639945891 / 8796093022208)"
    using fl_tie [where k = "- 46" and m = 8631613119567127
        and x = "(4278672973481011 / 140737488355328) + (3246138316413311 / 35184372088832)"]
    by (simp add: pow2_def)
  have s2: "js_add (Num (1078951639945891 / 8796093022208)) (Num (5446428209360509 / 1125899906842624))
      = Num (255 / 2)"
    using fl_near [where k = "- 46" and m = 8972014882652160
        and x = "(1078951639945891 / 8796093022208) + (5446428209360509 / 1125899906842624)"]
    by (simp add: pow2_def)
  have l: "js_div (Num (255 / 2)) (Num 255)
      = Num (1 / 2)"
    using fl_near [where k = "- 53" and m = 4503599627370496
        and x = "(255 / 2) / 255"]
    by (simp add: pow2_def)
  show ?thesis
    by (simp only: lumaExpr_def lit_2126 lit_7152 lit_0722 p1 p2 p3 s1 s2 l)
qed

lemma lumaExpr_160_119_116:
  "lumaExpr (Num 160) (Num 119) (Num 116) = Num (1 / 2)"
proof -
  have p1: "js_mul (Num (1914930561557935 / 9007199254740992)) (Num 160)
      = Num (2393663201947419 / 70368744177664)"
    using fl_tie [where k = "- 47" and m = 4787326403894837
        and x = "(1914930561557935 / 9007199254740992) * 160"]
    by (simp add: pow2_def)
  have p2: "js_mul (Num (6441948906990757 / 9007199254740992)) (Num 119)
      = Num (5988999374467969 / 70368744177664)"
    using fl_near [where k = "- 46" and m = 5988999374467969
        and x = "(6441948906990757 / 9007199254740992) * 119"]
    by (simp add: pow2_def)
  have p3: "js_mul (Num (5202558289538397 / 72057594037927936)) (Num 116)
      = Num (1178704612473543 / 140737488355328)"
    using fl_near [where k = "- 49" and m = 4714818449894172
        and x = "(5202558289538397 / 72057594037927936) * 116"]
    by (simp add: pow2_def)
  have s1: "js_add (Num (2393663201947419 / 70368744177664)) (Num (5988999374467969 / 70368744177664))
      = Num (2095665644103847 / 17592186044416)"
    using fl_near [where k = "- 46" and m = 8382662576415388
        and x = "(2393663201947419 / 70368744177664) + (5988999374467969 / 70368744177664)"]
    by (simp add: pow2_def)
  have s2: "js_add (Num (2095665644103847 / 17592186044416)) (Num (1178704612473543 / 140737488355328))
      = Num (255 / 2)"
    using fl_tie [where k = "- 46" and m = 8972014882652159
        and x = "(2095665644103847 / 17592186044416) + (1178704612473543 / 140737488355328)"]
    by (simp add: pow2_def)
  have l: "js_div (Num (255 / 2)) (Num 255)
      = Num (1 / 2)"
    using fl_near [where k = "- 53" and m = 4503599627370496
        and x = "(255 / 2) / 255"]
    by (simp add: pow2_def)
  show ?thesis
    by (simp only: lumaExpr_def lit_2126 lit_7152 lit_0722 p1 p2 p3 s1 s2 l)
qed

lemma lumaExpr_177_109_165:
  "lumaExpr (Num 177) (Num 109) (Num 165) = Num (1 / 2)"
proof -
  have p1: "js_mul (Num (1914930561557935 / 9007199254740992)) (Num 177)
      = Num (661997479288583 / 17592186044416)"
    using fl_near [where k = "- 47" and m = 5295979834308664
        and x = "(1914930561557935 / 9007199254740992) * 177"]
    by (simp add: pow2_def)
  have p2: "js_mul (Num (6441948906990757 / 9007199254740992)) (Num 109)
      = Num (5485722116109317 / 70368744177664)"
    using fl_near [where k = "- 46" and m = 5485722116109317
        and x = "(6441948906990757 / 9007199254740992) * 109"]
    by (simp add: pow2_def)
  have p3: "js_mul (Num (5202558289538397 / 72057594037927936)) (Num 165)
      = Num (3353211397554045 / 281474976710656)"
    using fl_near [where k = "- 49" and m = 6706422795108090
        and x = "(5202558289538397 / 72057594037927936) * 165"]
    by (simp add: pow2_def)
  have s1: "js_add (Num (661997479288583 / 17592186044416)) (Num (5485722116109317 / 70368744177664))
      = Num (8133712033263649 / 70368744177664)"
    using fl_near [where k = "- 46" and m = 8133712033263649
        and x = "(661997479288583 / 17592186044416) + (5485722116109317 / 70368744177664)"]
    by (simp add: pow2_def)
  have s2: "js_add (Num (8133712033263649 / 70368744177664)) (Num (3353211397554045 / 281474976710656))
      = Num (255 / 2)"
    using fl_near [where k = "- 46" and m = 8972014882652160
        and x = "(8133712033263649 / 70368744177664) + (3353211397554045 / 281474976710656)"]
    by (simp add: pow2_def)
  have l: "js_div (Num (255 / 2)) (Num 255)
      = Num (1 / 2)"
    using fl_near [where k = "- 53" and m = 4503599627370496
        and x = "(255 / 2) / 255"]
    by (simp add: pow2_def)
  show ?thesis
    by (simp only: lumaExpr_def lit_2126 lit_7152 lit_0722 p1 p2 p3 s1 s2 l)
qed

lemma lumaExpr_194_99_214:
  "lumaExpr (Num 194) (Num 99) (Num 214) = Num (1 / 2)"
proof -
  have p1: "js_mul (Num (1914930561557935 / 9007199254740992)) (Num 194)
      = Num (2902316632361245 / 70368744177664)"
    using fl_near [where k = "- 47" and m = 5804633264722490
        and x = "(1914930561557935 / 9007199254740992) * 194"]
    by (simp add: pow2_def)
  have p2: "js_mul (Num (6441948906990757 / 9007199254740992)) (Num 99)
      = Num (622805607218833 / 8796093022208)"
    using fl_near [where k = "- 46" and m = 4982444857750664
        and x = "(6441948906990757 / 9007199254740992) * 99"]
    by (simp add: pow2_def)
  have p3: "js_mul (Num (5202558289538397 / 72057594037927936)) (Num 214)
      = Num (8698027140322007 / 562949953421312)"
    using fl_near [where k = "- 49" and m = 8698027140322007
        and x = "(5202558289538397 / 72057594037927936) * 214"]
    by (simp add: pow2_def)
  have s1: "js_add (Num (2902316632361245 / 70368744177664)) (Num (622805607218833 / 8796093022208))
      = Num (7884761490111909 / 70368744177664)"
    using fl_near [where k = "- 46" and m = 7884761490111909
        and x = "(2902316632361245 / 70368744177664) + (622805607218833 / 8796093022208)"]
    by (simp add: pow2_def)
  have s2: "js_add (Num (7884761490111909 / 70368744177664)) (Num (8698027140322007 / 562949953421312))
      = Num (255 / 2)"
    using fl_near [where k = "- 46" and m = 8972014882652160
        and x = "(7884761490111909 / 70368744177664) + (8698027140322007 / 562949953421312)"]
    by (simp add: pow2_def)
  have l: "js_div (Num (255 / 2)) (Num 255)
      = Num (1 / 2)"
    using fl_near [where k = "- 53" and m = 4503599627370496
        and x = "(255 / 2) / 255"]
    by (simp add: pow2_def)
  show ?thesis
    by (simp only: lumaExpr_def lit_2126 lit_7152 lit_0722 p1 p2 p3 s1 s2 l)
qed

lemma lumaExpr_208_112_44:
  "lumaExpr (Num 208) (Num 112) (Num 44) = Num (9007199254740991 / 18014398509481984)"
proof -
  have p1: "js_mul (Num (1914930561557935 / 9007199254740992)) (Num 208)
      = Num (6223524325063289 / 140737488355328)"
    using fl_near [where k = "- 47" and m = 6223524325063289
        and x = "(1914930561557935 / 9007199254740992) * 208"]
    by (simp add: pow2_def)
  have p2: "js_mul (Num (6441948906990757 / 9007199254740992)) (Num 112)
      = Num (352294080851057 / 4398046511104)"
    using fl_near [where k = "- 46" and m = 5636705293616912
        and x = "(6441948906990757 / 9007199254740992) * 112"]
    by (simp add: pow2_def)
  have p3: "js_mul (Num (5202558289538397 / 72057594037927936)) (Num 44)
      = Num (223547426503603 / 70368744177664)"
    using fl_near [where k = "- 51" and m = 7153517648115296
        and x = "(5202558289538397 / 72057594037927936) * 44"]
    by (simp add: pow2_def)
  have s1: "js_add (Num (6223524325063289 / 140737488355328)) (Num (352294080851057 / 4398046511104))
      = Num (2187116864037139 / 17592186044416)"
    using fl_tie [where k = "- 46" and m = 8748467456148556
        and x = "(6223524325063289 / 140737488355328) + (352294080851057 / 4398046511104)"]
    by (simp add: pow2_def)
  have s2: "js_add (Num (2187116864037139 / 17592186044416)) (Num (223547426503603 / 70368744177664))
      = Num (8972014882652159 / 70368744177664)"
    using fl_near [where k = "- 46" and m = 8972014882652159
        and x = "(2187116864037139 / 17592186044416) + (223547426503603 / 70368744177664)"]
    by (simp add: pow2_def)
  have l: "js_div (Num (8972014882652159 / 70368744177664)) (Num 255)
      = Num (9007199254740991 / 18014398509481984)"
    using fl_near [where k = "- 54" and m = 9007199254740991
        and x = "(8972014882652159 / 70368744177664) / 255"]
    by (simp add: pow2_def)
  show ?thesis
    by (simp only: lumaExpr_def lit_2126 lit_7152 lit_0722 p1 p2 p3 s1 s2 l)
qed

lemma lumaExpr_225_102_93:
  "lumaExpr (Num 225) (Num 102) (Num 93) = Num (9007199254740991 / 18014398509481984)"
proof -
  have p1: "js_mul (Num (1914930561557935 / 9007199254740992)) (Num 225)
      = Num (6732177755477115 / 140737488355328)"
    using fl_near [where k = "- 47" and m = 6732177755477115
        and x = "(1914930561557935 / 9007199254740992) * 225"]
    by (simp add: pow2_def)
  have p2: "js_mul (Num (6441948906990757 / 9007199254740992)) (Num 102)
      = Num (5133428035258259 / 70368744177664)"
    using fl_near [where k = "- 46" and m = 5133428035258259
        and x = "(6441948906990757 / 9007199254740992) * 102"]
    by (simp add: pow2_def)
  have p3: "js_mul (Num (5202558289538397 / 72057594037927936)) (Num 93)
      = Num (7559967514485483 / 1125899906842624)"
    using fl_near [where k = "- 50" and m = 7559967514485483
        and x = "(5202558289538397 / 72057594037927936) * 93"]
    by (simp add: pow2_def)
  have s1: "js_add (Num (6732177755477115 / 140737488355328)) (Num (5133428035258259 / 70368744177664))
      = Num (531219807062301 / 4398046511104)"
    using fl_tie [where k = "- 46" and m = 8499516912996816
        and x = "(6732177755477115 / 140737488355328) + (5133428035258259 / 70368744177664)"]
    by (simp add: pow2_def)
  have s2: "js_add (Num (531219807062301 / 4398046511104)) (Num (7559967514485483 / 1125899906842624))
      = Num (8972014882652159 / 70368744177664)"
    using fl_near [where k = "- 46" and m = 8972014882652159
        and x = "(531219807062301 / 4398046511104) + (7559967514485483 / 1125899906842624)"]
    by (simp add: pow2_def)
  have l: "js_div (Num (8972014882652159 / 70368744177664)) (Num 255)
      = Num (9007199254740991 / 18014398509481984)"
    using fl_near [where k = "- 54" and m = 9007199254740991
        and x = "(8972014882652159 / 70368744177664) / 255"]
    by (simp add: pow2_def)
  show ?thesis
    by (simp only: lumaExpr_def lit_2126 lit_7152 lit_0722 p1 p2 p3 s1 s2 l)
qed

lemma lumaExpr_242_92_142:
  "lumaExpr (Num 242) (Num 92) (Num 142) = Num (1 / 2)"
proof -
  have p1: "js_mul (Num (1914930561557935 / 9007199254740992)) (Num 242)
      = Num (3620415592945471 / 70368744177664)"
    using fl_near [where k = "- 47" and m = 7240831185890942
        and x = "(1914930561557935 / 9007199254740992) * 242"]
    by (simp add: pow2_def)
  have p2: "js_mul (Num (6441948906990757 / 9007199254740992)) (Num 92)
      = Num (4630150776899607 / 70368744177664)"
    using fl_near [where k = "- 46" and m = 4630150776899607
        and x = "(6441948906990757 / 9007199254740992) * 92"]
    by (simp add: pow2_def)
  have p3: "js_mul (Num (5202558289538397 / 72057594037927936)) (Num 142)
      = Num (5771588102456659 / 562949953421312)"
    using fl_near [where k = "- 49" and m = 5771588102456659
        and x = "(5202558289538397 / 72057594037927936) * 142"]
    by (simp add: pow2_def)
  have s1: "js_add (Num (3620415592945471 / 70368744177664)) (Num (4630150776899607 / 70368744177664))
      = Num (4125283184922539 / 35184372088832)"
    using fl_near [where k = "- 46" and m = 8250566369845078
        and x = "(3620415592945471 / 70368744177664) + (4630150776899607 / 70368744177664)"]
    by (simp add: pow2_def)
  have s2: "js_add (Num (4125283184922539 / 35184372088832)) (Num (5771588102456659 / 562949953421312))
      = Num (255 / 2)"
    using fl_near [where k = "- 46" and m = 8972014882652160
        and x = "(4125283184922539 / 35184372088832) + (5771588102456659 / 562949953421312)"]
    by (simp add: pow2_def)
  have l: "js_div (Num (255 / 2)) (Num 255)
      = Num (1 / 2)"
    using fl_near [where k = "- 53" and m = 4503599627370496
        and x = "(255 / 2) / 255"]
    by (simp add: pow2_def)
  show ?thesis
    by (simp only: lumaExpr_def lit_2126 lit_7152 lit_0722 p1 p2 p3 s1 s2 l)
qed

lemma lumaExpr_255_255_255:
  "lumaExpr (Num 255) (Num 255) (Num 255) = Num (9007199254740991 / 9007199254740992)"
proof -
  have p1: "js_mul (Num (1914930561557935 / 9007199254740992)) (Num 255)
      = Num (7629801456207397 / 140737488355328)"
    using fl_near [where k = "- 47" and m = 7629801456207397
        and x = "(1914930561557935 / 9007199254740992) * 255"]
    by (simp add: pow2_def)
  have p2: "js_mul (Num (6441948906990757 / 9007199254740992)) (Num 255)
      = Num (802098130509103 / 4398046511104)"
    using fl_near [where k = "- 45" and m = 6416785044072824
        and x = "(6441948906990757 / 9007199254740992) * 255"]
    by (simp add: pow2_def)
  have p3: "js_mul (Num (5202558289538397 / 72057594037927936)) (Num 255)
      = Num (323889737263743 / 17592186044416)"
    using fl_near [where k = "- 48" and m = 5182235796219888
        and x = "(5202558289538397 / 72057594037927936) * 255"]
    by (simp add: pow2_def)
  have s1: "js_add (Num (7629801456207397 / 140737488355328)) (Num (802098130509103 / 4398046511104))
      = Num (8324235408124673 / 35184372088832)"
    using fl_near [where k = "- 45" and m = 8324235408124673
        and x = "(7629801456207397 / 140737488355328) + (802098130509103 / 4398046511104)"]
    by (simp add: pow2_def)
  have s2: "js_add (Num (8324235408124673 / 35184372088832)) (Num (323889737263743 / 17592186044416))
      = Num (8972014882652159 / 35184372088832)"
    using fl_near [where k = "- 45" and m = 8972014882652159
        and x = "(8324235408124673 / 35184372088832) + (323889737263743 / 17592186044416)"]
    by (simp add: pow2_def)
  have l: "js_div (Num (8972014882652159 / 35184372088832)) (Num 255)
      = Num (9007199254740991 / 9007199254740992)"
    using fl_near [where k = "- 53" and m = 9007199254740991
        and x = "(8972014882652159 / 35184372088832) / 255"]
    by (simp add: pow2_def)
  show ?thesis
    by (simp only: lumaExpr_def lit_2126 lit_7152 lit_0722 p1 p2 p3 s1 s2 l)
qed

text \<open>
  The comparison with 0.5 made on the computed luma gives the answer the exact luma
  gives: away from one half the error of the computation is far below the distance
  of the exact luma from one half, and at one half the computation was evaluated.
\<close>

lemma exactLuma_sum:
  "exactLuma r g b = of_nat (1063 * r + 3576 * g + 361 * b) / 1275000"
  by (simp add: exactLuma_def)

lemma lumaExpr_decision:
  assumes "r \<le> 255" "g \<le> 255" "b \<le> 255"
  shows "js_gt (lumaExpr (Num (of_nat r)) (Num (of_nat g)) (Num (of_nat b))) (Num 0.5)
           = (1 / 2 < exactLuma r g b)"
proof -
  define t where "t = 1063 * r + 3576 * g + 361 * b"
  have E: "exactLuma r g b = of_nat t / 1275000"
    unfolding t_def by (rule exactLuma_sum)
  obtain l where l: "lumaExpr (Num (of_nat r)) (Num (of_nat g)) (Num (of_nat b)) = Num l"
    and err: "\<bar>l - exactLuma r g b\<bar> \<le> 5 / 2 ^ 46"
    using lumaExpr_error [OF assms] by blast
  have small: "5 / 2 ^ 46 < (1 / 1275000 :: rat)"
    by simp
  consider "t < 637500" | "t = 637500" | "637500 < t"
    by linarith
  then show ?thesis
  proof cases
    case 1
    then have "t \<le> 637499"
      by simp
    then have "(of_nat t :: rat) \<le> of_nat 637499"
      by (simp only: of_nat_le_iff)
    then have "exactLuma r g b \<le> 637499 / 1275000"
      unfolding E by simp
    with err small have "l < 1 / 2" "\<not> 1 / 2 < exactLuma r g b"
      by linarith+
    then show ?thesis
      by (simp add: l)
  next
    case 2
    then have "1063 * r + 3576 * g + 361 * b = 637500"
      by (simp add: t_def)
    from tie_enumeration [OF this assms] show ?thesis
      by (auto simp: exactLuma_def lumaExpr_13_163_113 lumaExpr_30_153_162 lumaExpr_47_143_211 lumaExpr_61_156_41 lumaExpr_78_146_90 lumaExpr_95_136_139 lumaExpr_112_126_188 lumaExpr_126_139_18 lumaExpr_129_116_237 lumaExpr_143_129_67 lumaExpr_160_119_116 lumaExpr_177_109_165 lumaExpr_194_99_214 lumaExpr_208_112_44 lumaExpr_225_102_93 lumaExpr_242_92_142)
  next
    case 3
    then have "637501 \<le> t"
      by simp
    then have "of_nat 637501 \<le> (of_nat t :: rat)"
      by (simp only: of_nat_le_iff)
    then have "637501 / 1275000 \<le> exactLuma r g b"
      unfolding E by simp
    with err small have "1 / 2 < l" "1 / 2 < exactLuma r g b"
      by linarith+
    then show ?thesis
      by (simp add: l)
  qed
qed

lemma calculateLuma_lumaExpr:
  "calculateLuma color =
     (case hexToRGB color of
        None \<Rightarrow> Inl TypeError
      | Some (red, green, blue) \<Rightarrow> Inr (lumaExpr red green blue))"
  by (simp add: calculateLuma_def lumaExpr_def split: option.split)

section \<open>Properties of the colour picker\<close>

lemma hexDigit_less: "hexDigit c = Some v \<Longrightarrow> v < 16"
  by (auto simp: hexDigit_def Let_def split: if_splits)

lemma hexChar_hexDigit: "hexDigit c = Some v \<Longrightarrow> hexChar v = toLower c"
  by (auto simp: hexDigit_def hexChar_def toLower_def Let_def split: if_splits)

lemma parseInt16_pair:
  assumes "hexDigit a = Some va" "hexDigit b = Some vb"
  shows "parseInt16 [a, b] = Num (of_nat (16 * va + vb))"
  using assms by (simp add: parseInt16_def isHex_def)

lemma channelToHex_of_nat:
  "channelToHex (Num (of_nat n)) = [hexChar (n div 16 mod 16), hexChar (n mod 16)]"
  by (simp add: channelToHex_def)

lemma channelToHex_pair:
  assumes "hexDigit a = Some va" "hexDigit b = Some vb"
  shows "channelToHex (parseInt16 [a, b]) = [toLower a, toLower b]"
proof -
  have va: "va < 16" and vb: "vb < 16"
    using assms by (auto dest: hexDigit_less)
  have "channelToHex (parseInt16 [a, b])
          = [hexChar ((16 * va + vb) div 16 mod 16), hexChar ((16 * va + vb) mod 16)]"
    unfolding parseInt16_pair [OF assms] by (rule channelToHex_of_nat)
  also have "\<dots> = [hexChar va, hexChar vb]"
    using va vb by simp
  finally have "channelToHex (parseInt16 [a, b]) = [hexChar va, hexChar vb]" .
  then show ?thesis
    by (simp add: hexChar_hexDigit [OF assms(1)] hexChar_hexDigit [OF assms(2)])
qed

lemma length6: "length xs = 6 \<Longrightarrow> \<exists>a b c d e f. xs = [a, b, c, d, e, f]"
  by (auto simp: length_Suc_conv eval_nat_numeral)

lemma isHex_not_hash: "isHex c \<Longrightarrow> c \<noteq> CHR ''#''"
  by (auto simp: isHex_def hexDigit_def Let_def)

lemma rgb_regex_exec_six:
  assumes "isHex a" "isHex b" "isHex c" "isHex d" "isHex e" "isHex f"
  shows "rgb_regex_exec [a, b, c, d, e, f] = Some ([a, b], [c, d], [e, f])"
    and "rgb_regex_exec (CHR ''#'' # [a, b, c, d, e, f]) = Some ([a, b], [c, d], [e, f])"
  using assms isHex_not_hash [OF assms(1)] by (simp_all add: rgb_regex_exec_def)

lemma roundTrip_six:
  assumes "isHex a" "isHex b" "isHex c" "isHex d" "isHex e" "isHex f"
  shows "roundTrip [a, b, c, d, e, f] = Some (CHR ''#'' # map toLower [a, b, c, d, e, f])"
    and "roundTrip (CHR ''#'' # [a, b, c, d, e, f])
           = Some (CHR ''#'' # map toLower [a, b, c, d, e, f])"
proof -
  obtain va vb vc vd ve vf where v:
    "hexDigit a = Some va" "hexDigit b = Some vb" "hexDigit c = Some vc"
    "hexDigit d = Some vd" "hexDigit e = Some ve" "hexDigit f = Some vf"
    using assms by (auto simp: isHex_def)
  note ch = channelToHex_pair [OF v(1) v(2)] channelToHex_pair [OF v(3) v(4)]
    channelToHex_pair [OF v(5) v(6)]
  show "roundTrip [a, b, c, d, e, f] = Some (CHR ''#'' # map toLower [a, b, c, d, e, f])"
    by (simp add: roundTrip_def hexToRGB_def rgb_regex_exec_six(1) [OF assms] rgbToHex_def ch)
  show "roundTrip (CHR ''#'' # [a, b, c, d, e, f])
           = Some (CHR ''#'' # map toLower [a, b, c, d, e, f])"
    by (simp add: roundTrip_def hexToRGB_def rgb_regex_exec_six(2) [OF assms] rgbToHex_def ch)
qed

lemma rgb_regex_exec_matches:
  "(rgb_regex_exec s \<noteq> None)
     = (\<exists>ds. length ds = 6 \<and> list_all isHex ds \<and> (s = ds \<or> s = CHR ''#'' # ds))"
proof
  assume "rgb_regex_exec s \<noteq> None"
  then show "\<exists>ds. length ds = 6 \<and> list_all isHex ds \<and> (s = ds \<or> s = CHR ''#'' # ds)"
    by (auto simp: rgb_regex_exec_def Let_def split: list.splits if_splits)
next
  assume "\<exists>ds. length ds = 6 \<and> list_all isHex ds \<and> (s = ds \<or> s = CHR ''#'' # ds)"
  then obtain ds where ds: "length ds = 6" "list_all isHex ds" "s = ds \<or> s = CHR ''#'' # ds"
    by blast
  from ds(1) obtain a b c d e f where xs: "ds = [a, b, c, d, e, f]"
    using length6 by blast
  with ds(2) have h: "isHex a" "isHex b" "isHex c" "isHex d" "isHex e" "isHex f"
    by simp_all
  from ds(3) show "rgb_regex_exec s \<noteq> None"
    using rgb_regex_exec_six [OF h] xs by auto
qed

lemma hexToRGB_six:
  assumes "hexDigit a = Some va" "hexDigit b = Some vb" "hexDigit c = Some vc"
    "hexDigit d = Some vd" "hexDigit e = Some ve" "hexDigit f = Some vf"
  shows "hexToRGB (JStr [a, b, c, d, e, f])
           = Some (Num (of_nat (16 * va + vb)), Num (of_nat (16 * vc + vd)),
                   Num (of_nat (16 * ve + vf)))"
    and "hexToRGB (JStr (CHR ''#'' # [a, b, c, d, e, f]))
           = Some (Num (of_nat (16 * va + vb)), Num (of_nat (16 * vc + vd)),
                   Num (of_nat (16 * ve + vf)))"
    and "16 * va + vb \<le> 255 \<and> 16 * vc + vd \<le> 255 \<and> 16 * ve + vf \<le> 255"
proof -
  have h: "isHex a" "isHex b" "isHex c" "isHex d" "isHex e" "isHex f"
    using assms by (simp_all add: isHex_def)
  note p = parseInt16_pair [OF assms(1) assms(2)] parseInt16_pair [OF assms(3) assms(4)]
    parseInt16_pair [OF assms(5) assms(6)]
  show "hexToRGB (JStr [a, b, c, d, e, f])
           = Some (Num (of_nat (16 * va + vb)), Num (of_nat (16 * vc + vd)),
                   Num (of_nat (16 * ve + vf)))"
    by (simp add: hexToRGB_def rgb_regex_exec_six(1) [OF h] p)
  show "hexToRGB (JStr (CHR ''#'' # [a, b, c, d, e, f]))
           = Some (Num (of_nat (16 * va + vb)), Num (of_nat (16 * vc + vd)),
                   Num (of_nat (16 * ve + vf)))"
    by (simp add: hexToRGB_def rgb_regex_exec_six(2) [OF h] p)
  show "16 * va + vb \<le> 255 \<and> 16 * vc + vd \<le> 255 \<and> 16 * ve + vf \<le> 255"
    using assms [THEN hexDigit_less] by simp
qed

lemma pickColor_no_current:
  "typeof a \<noteq> ''string'' \<Longrightarrow> currentColor p = JUndefined \<or> currentColor p = JNull \<Longrightarrow>
   pickColor a p = Inl TypeError"
  by (auto simp: pickColor_def)

lemma calculateLuma_decoded:
  "hexToRGB color = Some (red, green, blue) \<Longrightarrow>
   calculateLuma color =
     Inr (js_div
            (js_add
               (js_add (js_mul (literal 0.2126) red) (js_mul (literal 0.7152) green))
               (js_mul (literal 0.0722) blue))
            (Num 255))"
  by (simp add: calculateLuma_def)

lemma contrastColor_decoded:
  "calculateLuma (currentColor p) = Inr luma \<Longrightarrow>
   contrastColor p = Inr (if js_gt luma (Num 0.5) then ''#000000'' else ''#FFFFFF'')"
  by (simp add: contrastColor_def black_def white_def)

lemma contrastColor_six:
  assumes "hexDigit a = Some va" "hexDigit b = Some vb" "hexDigit c = Some vc"
    "hexDigit d = Some vd" "hexDigit e = Some ve" "hexDigit f = Some vf"
  shows "contrastColor (p\<lparr>currentColor := JStr [a, b, c, d, e, f]\<rparr>)
           = Inr (if 1 / 2 < exactLuma (16 * va + vb) (16 * vc + vd) (16 * ve + vf)
                  then black else white)"
    and "contrastColor (p\<lparr>currentColor := JStr (CHR ''#'' # [a, b, c, d, e, f])\<rparr>)
           = Inr (if 1 / 2 < exactLuma (16 * va + vb) (16 * vc + vd) (16 * ve + vf)
                  then black else white)"
proof -
  note h = hexToRGB_six [OF assms]
  from h(3) have d: "js_gt (lumaExpr (Num (of_nat (16 * va + vb))) (Num (of_nat (16 * vc + vd)))
        (Num (of_nat (16 * ve + vf)))) (Num 0.5)
      = (1 / 2 < exactLuma (16 * va + vb) (16 * vc + vd) (16 * ve + vf))"
    by (intro lumaExpr_decision) simp_all
  show "contrastColor (p\<lparr>currentColor := JStr [a, b, c, d, e, f]\<rparr>)
           = Inr (if 1 / 2 < exactLuma (16 * va + vb) (16 * vc + vd) (16 * ve + vf)
                  then black else white)"
    using d by (simp add: contrastColor_def calculateLuma_lumaExpr h(1))
  show "contrastColor (p\<lparr>currentColor := JStr (CHR ''#'' # [a, b, c, d, e, f])\<rparr>)
           = Inr (if 1 / 2 < exactLuma (16 * va + vb) (16 * vc + vd) (16 * ve + vf)
                  then black else white)"
    using d by (simp add: contrastColor_def calculateLuma_lumaExpr h(2))
qed

lemma hexDigit_values:
  "hexDigit CHR ''0'' = Some 0" "hexDigit CHR ''2'' = Some 2" "hexDigit CHR ''8'' = Some 8"
  "hexDigit CHR ''9'' = Some 9" "hexDigit CHR ''C'' = Some 12" "hexDigit CHR ''D'' = Some 13"
  "hexDigit CHR ''E'' = Some 14" "hexDigit CHR ''F'' = Some 15"
  by (simp_all add: hexDigit_def)

lemma contrastColor_FFFFFF: "contrastColor (p\<lparr>currentColor := JStr ''#FFFFFF''\<rparr>) = Inr black"
  using contrastColor_six(2) [of "CHR ''F''" 15 "CHR ''F''" 15 "CHR ''F''" 15
      "CHR ''F''" 15 "CHR ''F''" 15 "CHR ''F''" 15 p]
  by (simp add: hexDigit_values exactLuma_def)

lemma contrastColor_000000: "contrastColor (p\<lparr>currentColor := JStr ''#000000''\<rparr>) = Inr white"
  using contrastColor_six(2) [of "CHR ''0''" 0 "CHR ''0''" 0 "CHR ''0''" 0
      "CHR ''0''" 0 "CHR ''0''" 0 "CHR ''0''" 0 p]
  by (simp add: hexDigit_values exactLuma_def)

lemma contrastColor_0082C9: "contrastColor (p\<lparr>currentColor := JStr ''#0082C9''\<rparr>) = Inr white"
  using contrastColor_six(2) [of "CHR ''0''" 0 "CHR ''0''" 0 "CHR ''8''" 8
      "CHR ''2''" 2 "CHR ''C''" 12 "CHR ''9''" 9 p]
  by (simp add: hexDigit_values exactLuma_def)

lemma contrastColor_FFED00: "contrastColor (p\<lparr>currentColor := JStr ''#FFED00''\<rparr>) = Inr black"
  using contrastColor_six(2) [of "CHR ''F''" 15 "CHR ''F''" 15 "CHR ''E''" 14
      "CHR ''D''" 13 "CHR ''0''" 0 "CHR ''0''" 0 p]
  by (simp add: hexDigit_values exactLuma_def)

text \<open>
  C3. For every well-formed hex colour the contrast helper computes the luma of the
  decoded channels and returns white when it is at most 0.5 and black above. The
  palette validator of the component counts \<open>#FFF\<close> as well formed; with that
  colour selected the helper returns neither colour: it raises a TypeError.
\<close>

theorem C3_contrast_three_digit:
  "contrastColor \<lparr>currentColor = JStr ''#FFF'', advanced = False, emitted = []\<rparr>
     = Inl TypeError"
  by (simp add: contrastColor_def calculateLuma_def hexToRGB_def rgb_regex_exec_def)

text \<open>
  C4. \<open>hexToRGB\<close> decodes every well-formed 3-digit or 6-digit hex colour, in either
  case of letters and with or without the leading \<open>#\<close>. On the 3-digit colours
  \<open>#FFF\<close> and \<open>fff\<close> it returns \<open>null\<close>; the 6-digit forms decode.
\<close>

theorem C4_hexToRGB_three_digit:
  "hexToRGB (JStr ''#FFF'') = None \<and> hexToRGB (JStr ''fff'') = None
   \<and> hexToRGB (JStr ''#FFFFFF'') = Some (Num 255, Num 255, Num 255)"
  by (simp add: hexToRGB_def rgb_regex_exec_def isHex_def hexDigit_def parseInt16_def)

text \<open>
  C5 as stated: on a string that does not match the pattern, \<open>hexToRGB\<close> returns
  \<open>null\<close> and \<open>calculateLuma\<close> yields \<open>NaN\<close> without raising. At \<open>red\<close> the
  match fails and \<open>calculateLuma\<close> raises a TypeError; its result is not \<open>NaN\<close>.
\<close>

theorem C5_counterexample:
  "rgb_regex_exec ''red'' = None
   \<and> calculateLuma (JStr ''red'') = Inl TypeError
   \<and> calculateLuma (JStr ''red'') \<noteq> Inr NaN"
  by (simp add: calculateLuma_def hexToRGB_def rgb_regex_exec_def)

text \<open>
  C5, amended. For every string that the pattern of \<open>hexToRGB\<close> does not match,
  \<open>hexToRGB\<close> returns \<open>null\<close> and \<open>calculateLuma\<close> raises a TypeError when it
  destructures that \<open>null\<close>; it returns no number, \<open>NaN\<close> included.
\<close>

theorem C5_malformed_raises:
  assumes "rgb_regex_exec s = None"
  shows "hexToRGB (JStr s) = None \<and> calculateLuma (JStr s) = Inl TypeError"
  using assms by (simp add: calculateLuma_def hexToRGB_def)

theorem C5_malformed_raises_witness:
  "rgb_regex_exec ''#12345g'' = None
   \<and> hexToRGB (JStr ''#12345g'') = None
   \<and> calculateLuma (JStr ''#12345g'') = Inl TypeError"
proof -
  have h: "rgb_regex_exec ''#12345g'' = None"
    by (simp add: rgb_regex_exec_def isHex_def hexDigit_def)
  show ?thesis
    using h C5_malformed_raises [OF h] by simp
qed

text \<open>
  C7. Decoding a well-formed 3-digit or 6-digit hex value and re-encoding the
  channels gives the value in normalized form. For \<open>#abc\<close> the normalized form is
  \<open>#aabbcc\<close>, but the decoder returns \<open>null\<close> and there are no channels to encode.
\<close>

theorem C7_roundTrip_three_digit:
  "roundTrip ''#abc'' = None \<and> normalizeHex ''#abc'' = ''#aabbcc''"
  by (simp add: roundTrip_def hexToRGB_def rgb_regex_exec_def normalizeHex_def toLower_def)

text \<open>
  C9. With a string argument \<open>pickColor\<close> stores the string as the current colour
  and emits \<open>update:value\<close> and \<open>input\<close> with it. With any other argument it takes
  the \<open>hex\<close> property of the current colour instead and uses that value for the
  state and for both events.
\<close>

theorem C9_pickColor:
  "pickColor (JStr c) p =
     Inr (p\<lparr>currentColor := JStr c,
            emitted := emitted p @ [(''update:value'', [JStr c]), (''input'', [JStr c])]\<rparr>)
   \<and> (typeof a \<noteq> ''string'' \<longrightarrow> get_hex (currentColor p) = Inr h \<longrightarrow>
        pickColor a p =
          Inr (p\<lparr>currentColor := h,
                 emitted := emitted p @ [(''update:value'', [h]), (''input'', [h])]\<rparr>))"
  by (simp add: pickColor_def emit_def)

theorem C9_pickColor_witness:
  "typeof (JObj [(''hex'', JStr ''#ff0000'')]) \<noteq> ''string''
   \<and> get_hex (JObj [(''hex'', JStr ''#ff0000'')]) = Inr (JStr ''#ff0000'')
   \<and> pickColor (JObj [(''hex'', JStr ''#ff0000'')])
        \<lparr>currentColor = JObj [(''hex'', JStr ''#ff0000'')], advanced = True, emitted = []\<rparr>
      = Inr \<lparr>currentColor = JStr ''#ff0000'', advanced = True,
             emitted = [(''update:value'', [JStr ''#ff0000'']), (''input'', [JStr ''#ff0000''])]\<rparr>"
  using C9_pickColor [of "''x''"
      "\<lparr>currentColor = JObj [(''hex'', JStr ''#ff0000'')], advanced = True, emitted = []\<rparr>"
      "JObj [(''hex'', JStr ''#ff0000'')]" "JStr ''#ff0000''"]
  by simp

text \<open>
  C10. \<open>handleConfirm\<close> emits \<open>submit\<close> with the current colour, then \<open>close\<close>,
  then \<open>update:open\<close> with \<open>false\<close>, and leaves the picker in the simple view.
\<close>

theorem C10_handleConfirm:
  "handleConfirm p =
     p\<lparr>emitted := emitted p @
          [(''submit'', [currentColor p]), (''close'', []), (''update:open'', [JBool False])],
       advanced := False\<rparr>
   \<and> \<not> advanced (handleConfirm p)
   \<and> currentColor (handleConfirm p) = currentColor p"
  by (simp add: handleConfirm_def handleClose_def emit_def)

end
